theory Spec2Isabelle
  imports Complex_Main "HOL-Library.Sublist"
begin

section \<open>Python strings\<close>

text \<open>
  A Python \<^verbatim>\<open>str\<close> is a sequence of Unicode code points, so a text is a list of
  natural numbers and \<open>u\<close> turns an ASCII literal into one.  Case conversion and the
  character classes are exact for texts whose cased letters and word characters are ASCII;
  symbols beyond the ASCII range (emoji) are kept as their code points.
\<close>

type_synonym pystr = "nat list"

definition u :: "string \<Rightarrow> pystr" where
  "u s = map of_char s"

definition is_upper_cp :: "nat \<Rightarrow> bool" where
  "is_upper_cp c = (65 \<le> c \<and> c \<le> 90)"

definition is_lower_cp :: "nat \<Rightarrow> bool" where
  "is_lower_cp c = (97 \<le> c \<and> c \<le> 122)"

definition is_alpha_cp :: "nat \<Rightarrow> bool" where
  "is_alpha_cp c = (is_upper_cp c \<or> is_lower_cp c)"

definition is_digit_cp :: "nat \<Rightarrow> bool" where
  "is_digit_cp c = (48 \<le> c \<and> c \<le> 57)"

text \<open>\<^verbatim>\<open>\w\<close>: letters, digits and the underscore.\<close>

definition is_word_cp :: "nat \<Rightarrow> bool" where
  "is_word_cp c = (is_alpha_cp c \<or> is_digit_cp c \<or> c = 95)"

text \<open>\<^verbatim>\<open>str.isspace\<close>, the set that \<^verbatim>\<open>strip()\<close>, \<^verbatim>\<open>split()\<close> and \<^verbatim>\<open>\s\<close> use.\<close>

definition is_space_cp :: "nat \<Rightarrow> bool" where
  "is_space_cp c = ((9 \<le> c \<and> c \<le> 13) \<or> (28 \<le> c \<and> c \<le> 32) \<or> c = 133 \<or> c = 160
     \<or> c = 5760 \<or> (8192 \<le> c \<and> c \<le> 8202) \<or> c = 8232 \<or> c = 8233 \<or> c = 8239
     \<or> c = 8287 \<or> c = 12288)"

definition lower_cp :: "nat \<Rightarrow> nat" where
  "lower_cp c = (if is_upper_cp c then c + 32 else c)"

definition upper_cp :: "nat \<Rightarrow> nat" where
  "upper_cp c = (if is_lower_cp c then c - 32 else c)"

definition lower :: "pystr \<Rightarrow> pystr" where
  "lower t = map lower_cp t"

definition upper :: "pystr \<Rightarrow> pystr" where
  "upper t = map upper_cp t"

text \<open>\<^verbatim>\<open>str.isupper\<close>: some cased character, and no lower-case one.\<close>

definition isupper :: "pystr \<Rightarrow> bool" where
  "isupper t = (list_ex is_upper_cp t \<and> \<not> list_ex is_lower_cp t)"

definition isalpha :: "pystr \<Rightarrow> bool" where
  "isalpha t = (t \<noteq> [] \<and> list_all is_alpha_cp t)"

definition strip :: "pystr \<Rightarrow> pystr" where
  "strip t = rev (dropWhile is_space_cp (rev (dropWhile is_space_cp t)))"

text \<open>\<^verbatim>\<open>p in t\<close> on strings: \<open>p\<close> occurs as a contiguous run of \<open>t\<close>.\<close>

fun is_in :: "pystr \<Rightarrow> pystr \<Rightarrow> bool" where
  "is_in p [] = (p = [])"
| "is_in p (x # xs) = (prefix p (x # xs) \<or> is_in p xs)"

definition startswith :: "pystr \<Rightarrow> pystr \<Rightarrow> bool" where
  "startswith t p = prefix p t"

definition endswith :: "pystr \<Rightarrow> pystr \<Rightarrow> bool" where
  "endswith t p = suffix p t"

text \<open>\<^verbatim>\<open>any(w in t for w in ws)\<close>.\<close>

definition any_in :: "pystr list \<Rightarrow> pystr \<Rightarrow> bool" where
  "any_in ws t = list_ex (\<lambda>w. is_in w t) ws"

text \<open>\<^verbatim>\<open>not text or len(text.strip()) == 0\<close>.\<close>

definition is_blank :: "pystr \<Rightarrow> bool" where
  "is_blank t = (t = [] \<or> length (strip t) = 0)"

section \<open>Disaster-type extractor\<close>

datatype disaster = Earthquake | Flood | Typhoon | Fire | Volcanic_Eruptions | Landslide

fun disaster_name :: "disaster \<Rightarrow> pystr" where
  "disaster_name Earthquake = u ''Earthquake''"
| "disaster_name Flood = u ''Flood''"
| "disaster_name Typhoon = u ''Typhoon''"
| "disaster_name Fire = u ''Fire''"
| "disaster_name Volcanic_Eruptions = u ''Volcanic Eruptions''"
| "disaster_name Landslide = u ''Landslide''"

text \<open>The keys of the dictionary \<^verbatim>\<open>disaster_types\<close>, in insertion order.\<close>

definition disaster_keys :: "disaster list" where
  "disaster_keys = [Earthquake, Flood, Typhoon, Fire, Volcanic_Eruptions, Landslide]"

fun disaster_types :: "disaster \<Rightarrow> pystr list" where
  "disaster_types Earthquake =
    [u ''earthquake'', u ''quake'', u ''tremor'', u ''seismic'', u ''lindol'',
     u ''magnitude'', u ''aftershock'', u ''shaking'', u ''lumindol'', u ''pagyanig'',
     u ''paglindol'', u ''ground shaking'', u ''magnitude'']"
| "disaster_types Flood =
    [u ''flood'', u ''flooding'', u ''inundation'', u ''baha'', u ''tubig'', u ''binaha'',
     u ''flash flood'', u ''rising water'', u ''bumabaha'', u ''nagbaha'',
     u ''high water level'', u ''water rising'', u ''overflowing'', u ''pagbaha'',
     u ''underwater'', u ''submerged'', u ''nabahaan'']"
| "disaster_types Typhoon =
    [u ''typhoon'', u ''storm'', u ''cyclone'', u ''hurricane'', u ''bagyo'',
     u ''super typhoon'', u ''habagat'', u ''ulan'', u ''buhos'', u ''storm surge'',
     u ''malakas na hangin'', u ''heavy rain'', u ''signal no'', u ''strong wind'',
     u ''malakas na ulan'', u ''flood warning'', u ''storm warning'',
     u ''evacuate due to storm'', u ''matinding ulan'']"
| "disaster_types Fire =
    [u ''fire'', u ''blaze'', u ''burning'', u ''sunog'', u ''nasusunog'', u ''nasunog'',
     u ''nagliliyab'', u ''flame'', u ''apoy'', u ''burning building'', u ''burning house'',
     u ''tulong sunog'', u ''house fire'', u ''fire truck'', u ''fire fighter'',
     u ''building fire'', u ''fire alarm'', u ''burning'', u ''nagliliyab'', u ''sinusunog'',
     u ''smoke'', u ''usok'']"
| "disaster_types Volcanic_Eruptions =
    [u ''volcano'', u ''eruption'', u ''lava'', u ''ash'', u ''bulkan'', u ''ashfall'',
     u ''magma'', u ''volcanic'', u ''bulkang'', u ''active volcano'', u ''phivolcs alert'',
     u ''taal'', u ''mayon'', u ''pinatubo'', u ''volcanic activity'', u ''phivolcs'',
     u ''volcanic ash'', u ''evacuate volcano'', u ''erupting'', u ''erupted'',
     u ''abo ng bulkan'']"
| "disaster_types Landslide =
    [u ''landslide'', u ''mudslide'', u ''avalanche'', u ''guho'', u ''pagguho'',
     u ''pagguho ng lupa'', u ''collapsed'', u ''erosion'', u ''land collapse'',
     u ''soil erosion'', u ''rock slide'', u ''debris flow'', u ''mountainside'',
     u ''nagkaroong ng guho'', u ''rumble'', u ''bangin'', u ''bumagsak na lupa'']"

fun context_indicators :: "disaster \<Rightarrow> pystr list" where
  "context_indicators Earthquake =
    [u ''shaking'', u ''ground moved'', u ''buildings collapsed'', u ''magnitude'',
     u ''richter scale'', u ''fell down'', u ''trembling'', u ''evacuate building'',
     u ''underneath rubble'', u ''trapped'']"
| "context_indicators Flood =
    [u ''water level'', u ''rising water'', u ''underwater'', u ''submerged'',
     u ''evacuate'', u ''rescue boat'', u ''stranded'', u ''high water'', u ''knee deep'',
     u ''waist deep'']"
| "context_indicators Typhoon =
    [u ''strong winds'', u ''heavy rain'', u ''evacuation center'', u ''storm signal'',
     u ''stranded'', u ''cancelled flights'', u ''damaged roof'', u ''blown away'',
     u ''flooding due to'', u ''trees fell'']"
| "context_indicators Fire =
    [u ''smoke'', u ''evacuate building'', u ''trapped inside'', u ''firefighter'',
     u ''fire truck'', u ''burning'', u ''call 911'', u ''spread to'', u ''emergency'',
     u ''burning smell'']"
| "context_indicators Volcanic_Eruptions =
    [u ''alert level'', u ''evacuate area'', u ''danger zone'', u ''eruption warning'',
     u ''exclusion zone'', u ''kilometer radius'', u ''volcanic activity'',
     u ''ash covered'', u ''masks'', u ''respiratory'']"
| "context_indicators Landslide =
    [u ''collapsed'', u ''blocked road'', u ''buried'', u ''fell'', u ''slid down'',
     u ''mountain slope'', u ''after heavy rain'', u ''buried homes'', u ''rescue team'',
     u ''clearing operation'']"

text \<open>
  The dictionary \<^verbatim>\<open>scores\<close> has the six fixed keys of \<^verbatim>\<open>disaster_types\<close>; it is a
  record with one field for each key, read and updated through the key.
\<close>

record dscores =
  earthquake :: rat
  flood :: rat
  typhoon :: rat
  fire :: rat
  volcanic :: rat
  landslide :: rat

fun dscore :: "dscores \<Rightarrow> disaster \<Rightarrow> rat" where
  "dscore sc Earthquake = earthquake sc"
| "dscore sc Flood = flood sc"
| "dscore sc Typhoon = typhoon sc"
| "dscore sc Fire = fire sc"
| "dscore sc Volcanic_Eruptions = volcanic sc"
| "dscore sc Landslide = landslide sc"

text \<open>\<^verbatim>\<open>scores[d] += x\<close>.\<close>

fun bump :: "dscores \<Rightarrow> disaster \<Rightarrow> rat \<Rightarrow> dscores" where
  "bump sc Earthquake x = sc\<lparr>earthquake := earthquake sc + x\<rparr>"
| "bump sc Flood x = sc\<lparr>flood := flood sc + x\<rparr>"
| "bump sc Typhoon x = sc\<lparr>typhoon := typhoon sc + x\<rparr>"
| "bump sc Fire x = sc\<lparr>fire := fire sc + x\<rparr>"
| "bump sc Volcanic_Eruptions x = sc\<lparr>volcanic := volcanic sc + x\<rparr>"
| "bump sc Landslide x = sc\<lparr>landslide := landslide sc + x\<rparr>"

definition zero_dscores :: dscores where
  "zero_dscores = \<lparr>earthquake = 0, flood = 0, typhoon = 0, fire = 0, volcanic = 0, landslide = 0\<rparr>"

text \<open>The test that tells a full-word hit of a keyword from a hit inside a word.\<close>

definition full_word :: "pystr \<Rightarrow> pystr \<Rightarrow> bool" where
  "full_word keyword text_lower =
     (is_in (u '' '' @ keyword @ u '' '') (u '' '' @ text_lower @ u '' '')
      \<or> startswith text_lower (keyword @ u '' '')
      \<or> endswith text_lower (u '' '' @ keyword)
      \<or> text_lower = keyword)"

text \<open>First pass: every keyword found scores 2 as a full word and 1 otherwise.\<close>

definition keyword_pass :: "pystr \<Rightarrow> dscores \<Rightarrow> dscores" where
  "keyword_pass text_lower =
     fold (\<lambda>d. fold (\<lambda>keyword sc.
             if is_in keyword text_lower
             then (if full_word keyword text_lower then bump sc d 2 else bump sc d 1)
             else sc) (disaster_types d)) disaster_keys"

text \<open>Contextual indicators weigh 1.5 each.\<close>

definition context_pass :: "pystr \<Rightarrow> dscores \<Rightarrow> dscores" where
  "context_pass text_lower =
     fold (\<lambda>d. fold (\<lambda>indicator sc.
             if is_in indicator text_lower then bump sc d (3 / 2) else sc)
           (context_indicators d)) disaster_keys"

text \<open>Co-occurrence pairs, and the general emergency context of the last test.\<close>

definition cooccurrence_pass :: "pystr \<Rightarrow> dscores \<Rightarrow> dscores" where
  "cooccurrence_pass text_lower sc0 =
     (let sc1 = (if is_in (u ''water'') text_lower \<and> is_in (u ''rising'') text_lower
                 then bump sc0 Flood 2 else sc0);
          sc2 = (if is_in (u ''strong'') text_lower \<and> is_in (u ''wind'') text_lower
                 then bump sc1 Typhoon 2 else sc1);
          sc3 = (if is_in (u ''heavy'') text_lower \<and> is_in (u ''rain'') text_lower
                 then bump sc2 Typhoon (3 / 2) else sc2);
          sc4 = (if is_in (u ''building'') text_lower \<and> is_in (u ''collapse'') text_lower
                 then bump sc3 Earthquake 2 else sc3);
          sc5 = (if is_in (u ''ash'') text_lower \<and> is_in (u ''fall'') text_lower
                 then bump sc4 Volcanic_Eruptions 2 else sc4)
      in if is_in (u ''evacuate'') text_lower \<and> is_in (u ''alert'') text_lower
         then fold (\<lambda>d_type sc. if any_in (disaster_types d_type) text_lower
                                  then bump sc d_type 1 else sc)
                [Volcanic_Eruptions, Fire, Flood, Typhoon] sc5
         else sc5)"

definition disaster_scores :: "pystr \<Rightarrow> dscores" where
  "disaster_scores text_lower =
     cooccurrence_pass text_lower (context_pass text_lower (keyword_pass text_lower zero_dscores))"

text \<open>\<^verbatim>\<open>max(xs)\<close> of a list that is not empty (Python raises on an empty one; every
  call below passes the values of a dictionary with fixed keys).\<close>

fun max_of :: "'a::linorder list \<Rightarrow> 'a \<Rightarrow> 'a" where
  "max_of [] dflt = dflt"
| "max_of [x] dflt = x"
| "max_of (x # y # ys) dflt = max x (max_of (y # ys) dflt)"

definition priority_order :: "disaster list" where
  "priority_order = [Typhoon, Flood, Earthquake, Volcanic_Eruptions, Fire, Landslide]"

text \<open>
  The last line of the source, \<^verbatim>\<open>return top_disasters[0]\<close> after the priority loop,
  is kept as the \<open>None\<close> case; \<open>[]\<close> stands for the IndexError of an empty list there.
\<close>

definition extract_disaster_type :: "pystr \<Rightarrow> pystr" where
  "extract_disaster_type text =
     (if is_blank text then u ''Not Specified''
      else let text_lower = lower text;
               scores = disaster_scores text_lower;
               max_score = max_of (map (dscore scores) disaster_keys) 0
           in if max_score < 1 then u ''UNKNOWN''
              else let top_disasters = filter (\<lambda>dt. dscore scores dt = max_score) disaster_keys
                   in if length top_disasters = 1 then disaster_name (hd top_disasters)
                      else (case find (\<lambda>d. d \<in> set top_disasters) priority_order of
                              Some d \<Rightarrow> disaster_name d
                            | None \<Rightarrow> (case top_disasters of
                                          d # _ \<Rightarrow> disaster_name d | [] \<Rightarrow> [])))"


text \<open>A category \<open>d'\<close> comes before \<open>d\<close> in the priority list of the tie-break.\<close>

definition precedes :: "disaster \<Rightarrow> disaster \<Rightarrow> bool" where
  "precedes d' d = (d' \<in> set (takeWhile (\<lambda>x. x \<noteq> d) priority_order))"

section \<open>Splitting, joining, counting\<close>

text \<open>\<^verbatim>\<open>t.split()\<close>: the maximal runs of characters that are not whitespace.\<close>

fun split_acc :: "pystr \<Rightarrow> pystr \<Rightarrow> pystr list" where
  "split_acc w [] = (if w = [] then [] else [rev w])"
| "split_acc w (c # cs) =
     (if is_space_cp c then (if w = [] then split_acc [] cs else rev w # split_acc [] cs)
      else split_acc (c # w) cs)"

definition split_ws :: "pystr \<Rightarrow> pystr list" where
  "split_ws t = split_acc [] t"

text \<open>\<^verbatim>\<open>sep.join(ws)\<close>.\<close>

fun join :: "pystr \<Rightarrow> pystr list \<Rightarrow> pystr" where
  "join sep [] = []"
| "join sep [w] = w"
| "join sep (w # v # ws) = w @ sep @ join sep (v # ws)"

text \<open>\<^verbatim>\<open>t.count(p)\<close>: occurrences that do not overlap, scanning from the left; the first
  argument of \<open>count_from\<close> is the number of characters of the last hit still to skip.\<close>

fun count_from :: "nat \<Rightarrow> pystr \<Rightarrow> pystr \<Rightarrow> nat" where
  "count_from k p [] = 0"
| "count_from (Suc k) p (x # xs) = count_from k p xs"
| "count_from 0 p (x # xs) =
     (if prefix p (x # xs) then Suc (count_from (length p - 1) p xs) else count_from 0 p xs)"

definition count_sub :: "pystr \<Rightarrow> pystr \<Rightarrow> nat" where
  "count_sub t p = (if p = [] then Suc (length t) else count_from 0 p t)"

text \<open>\<^verbatim>\<open>t.title()\<close>: a letter after a letter is lowered, any other letter is raised.\<close>

fun title_from :: "bool \<Rightarrow> pystr \<Rightarrow> pystr" where
  "title_from b [] = []"
| "title_from b (c # cs) =
     (if is_alpha_cp c then (if b then lower_cp c else upper_cp c) # title_from True cs
      else c # title_from False cs)"

definition title :: "pystr \<Rightarrow> pystr" where
  "title t = title_from False t"

text \<open>\<^verbatim>\<open>round(x, 2)\<close> on the exact value: to the nearest hundredth, a tie to the even one.\<close>

definition round2 :: "rat \<Rightarrow> rat" where
  "round2 x =
     (let y = x * 100; f = \<lfloor>y\<rfloor>; d = y - of_int f
      in if d < 1 / 2 then of_int f / 100
         else if 1 / 2 < d then of_int (f + 1) / 100
         else (if even f then of_int f / 100 else of_int (f + 1) / 100))"

section \<open>Regular expressions\<close>

text \<open>
  The fragment of Python's \<^verbatim>\<open>re\<close> that the source uses: literals, character classes,
  greedy and lazy repetition of a class, sequence, alternation, option, the word boundary
  and one capturing group.  \<open>rmatch\<close> lists the ways a pattern matches at the start of the
  remaining text in the order in which the backtracking matcher tries them, so the head of
  the list is the match that Python reports.
\<close>

datatype cls = CSpace | CWord | CWordSpace | CUpper | CLower | CLetter | CDot | COf "nat list"

fun cls_ok :: "cls \<Rightarrow> nat \<Rightarrow> bool" where
  "cls_ok CSpace c = is_space_cp c"
| "cls_ok CWord c = is_word_cp c"
| "cls_ok CWordSpace c = (is_word_cp c \<or> is_space_cp c)"
| "cls_ok CUpper c = is_upper_cp c"
| "cls_ok CLower c = is_lower_cp c"
| "cls_ok CLetter c = is_alpha_cp c"
| "cls_ok CDot c = (c \<noteq> 10)"
| "cls_ok (COf cs) c = (c \<in> set cs)"

datatype rx = Lit pystr | One cls | Rep cls nat | RepLazy cls nat
  | Seq rx rx | Alt rx rx | Opt rx | WordB | Grp rx

text \<open>The state of a match: the character before the position, and the text from it on.
  A result is the text matched, the text captured by the group, and the state after.\<close>

type_synonym rstate = "nat option \<times> pystr"
type_synonym rres = "pystr \<times> pystr option \<times> rstate"

fun last_cp :: "nat option \<Rightarrow> pystr \<Rightarrow> nat option" where
  "last_cp p [] = p"
| "last_cp p (x # xs) = last_cp (Some x) xs"

text \<open>At least \<open>n\<close> characters of the class, the longest run first.\<close>

fun rep_greedy :: "cls \<Rightarrow> nat \<Rightarrow> pystr \<Rightarrow> nat option \<Rightarrow> pystr \<Rightarrow> rres list" where
  "rep_greedy c 0 acc p [] = [(rev acc, None, (p, []))]"
| "rep_greedy c (Suc n) acc p [] = []"
| "rep_greedy c 0 acc p (x # xs) =
     (if cls_ok c x then rep_greedy c 0 (x # acc) (Some x) xs else [])
     @ [(rev acc, None, (p, x # xs))]"
| "rep_greedy c (Suc n) acc p (x # xs) =
     (if cls_ok c x then rep_greedy c n (x # acc) (Some x) xs else [])"

text \<open>The same, the shortest run first.\<close>

fun rep_lazy :: "cls \<Rightarrow> nat \<Rightarrow> pystr \<Rightarrow> nat option \<Rightarrow> pystr \<Rightarrow> rres list" where
  "rep_lazy c 0 acc p [] = [(rev acc, None, (p, []))]"
| "rep_lazy c (Suc n) acc p [] = []"
| "rep_lazy c 0 acc p (x # xs) =
     (rev acc, None, (p, x # xs))
     # (if cls_ok c x then rep_lazy c 0 (x # acc) (Some x) xs else [])"
| "rep_lazy c (Suc n) acc p (x # xs) =
     (if cls_ok c x then rep_lazy c n (x # acc) (Some x) xs else [])"

definition is_word_opt :: "nat option \<Rightarrow> bool" where
  "is_word_opt p = (case p of None \<Rightarrow> False | Some c \<Rightarrow> is_word_cp c)"

definition next_cp :: "pystr \<Rightarrow> nat option" where
  "next_cp t = (case t of [] \<Rightarrow> None | c # _ \<Rightarrow> Some c)"

fun rmatch :: "rx \<Rightarrow> rstate \<Rightarrow> rres list" where
  "rmatch (Lit l) (p, t) =
     (if prefix l t then [(l, None, (last_cp p l, drop (length l) t))] else [])"
| "rmatch (One c) (p, t) =
     (case t of [] \<Rightarrow> []
      | x # xs \<Rightarrow> if cls_ok c x then [([x], None, (Some x, xs))] else [])"
| "rmatch (Rep c n) (p, t) = rep_greedy c n [] p t"
| "rmatch (RepLazy c n) (p, t) = rep_lazy c n [] p t"
| "rmatch (Seq a b) s =
     concat (map (\<lambda>(m1, g1, s1).
        map (\<lambda>(m2, g2, s2). (m1 @ m2, (case g2 of None \<Rightarrow> g1 | Some x \<Rightarrow> Some x), s2))
            (rmatch b s1)) (rmatch a s))"
| "rmatch (Alt a b) s = rmatch a s @ rmatch b s"
| "rmatch (Opt a) s = rmatch a s @ [([], None, s)]"
| "rmatch WordB (p, t) =
     (if is_word_opt p \<noteq> is_word_opt (next_cp t) then [([], None, (p, t))] else [])"
| "rmatch (Grp a) s = map (\<lambda>(m, g, s'). (m, Some m, s')) (rmatch a s)"

text \<open>\<^verbatim>\<open>re.search\<close>: the first match at the leftmost position that has one.\<close>

fun rsearch :: "rx \<Rightarrow> nat option \<Rightarrow> pystr \<Rightarrow> rres option" where
  "rsearch r p [] = (case rmatch r (p, []) of [] \<Rightarrow> None | x # _ \<Rightarrow> Some x)"
| "rsearch r p (c # cs) =
     (case rmatch r (p, c # cs) of [] \<Rightarrow> rsearch r (Some c) cs | x # _ \<Rightarrow> Some x)"

definition re_found :: "rx \<Rightarrow> pystr \<Rightarrow> bool" where
  "re_found r t = (rsearch r None t \<noteq> None)"

text \<open>What \<^verbatim>\<open>re.findall\<close> lists for a match: the group when the pattern has one.\<close>

definition match_item :: "rres \<Rightarrow> pystr" where
  "match_item x = (case x of (m, g, s) \<Rightarrow> (case g of None \<Rightarrow> m | Some y \<Rightarrow> y))"

text \<open>\<^verbatim>\<open>re.findall\<close>: the matches from left to right; the scan goes on after a match,
  and one character further after a match that consumed nothing.\<close>

function findall_from :: "rx \<Rightarrow> nat option \<Rightarrow> pystr \<Rightarrow> pystr list" where
  "findall_from r p t =
     (case rmatch r (p, t) of
        [] \<Rightarrow> (case t of [] \<Rightarrow> [] | c # cs \<Rightarrow> findall_from r (Some c) cs)
      | x # _ \<Rightarrow>
          match_item x
          # (if length (snd (snd (snd x))) < length t
             then findall_from r (fst (snd (snd x))) (snd (snd (snd x)))
             else (case t of [] \<Rightarrow> [] | c # cs \<Rightarrow> findall_from r (Some c) cs)))"
  by pat_completeness auto
termination
  by (relation "measure (\<lambda>(r, p, t). length t)") auto

definition findall :: "rx \<Rightarrow> pystr \<Rightarrow> pystr list" where
  "findall r t = findall_from r None t"

text \<open>Shorthands for the patterns.\<close>

definition star :: "cls \<Rightarrow> rx" where "star c = Rep c 0"
definition plus :: "cls \<Rightarrow> rx" where "plus c = Rep c (Suc 0)"
definition lazy_star :: "cls \<Rightarrow> rx" where "lazy_star c = RepLazy c 0"
definition lazy_plus :: "cls \<Rightarrow> rx" where "lazy_plus c = RepLazy c (Suc 0)"
definition two_or_more :: "cls \<Rightarrow> rx" where "two_or_more c = Rep c (Suc (Suc 0))"
definition lit :: "string \<Rightarrow> rx" where "lit s = Lit (u s)"

fun seqs :: "rx list \<Rightarrow> rx" where
  "seqs [] = Lit []"
| "seqs [r] = r"
| "seqs (r # q # rs) = Seq r (seqs (q # rs))"

fun alts :: "rx list \<Rightarrow> rx" where
  "alts [] = Lit []"
| "alts [r] = r"
| "alts (r # q # rs) = Alt r (alts (q # rs))"

section \<open>Rule-based classifier\<close>

datatype label = Panic | Fear_Anxiety | Disbelief | Resilience | Neutral

fun label_name :: "label \<Rightarrow> pystr" where
  "label_name Panic = u ''Panic''"
| "label_name Fear_Anxiety = u ''Fear/Anxiety''"
| "label_name Disbelief = u ''Disbelief''"
| "label_name Resilience = u ''Resilience''"
| "label_name Neutral = u ''Neutral''"

text \<open>\<^verbatim>\<open>self.sentiment_labels\<close>, which is also the key order of \<^verbatim>\<open>scores\<close>.\<close>

definition labels :: "label list" where
  "labels = [Panic, Fear_Anxiety, Disbelief, Resilience, Neutral]"

definition sentiment_labels :: "pystr list" where
  "sentiment_labels = map label_name labels"

text \<open>The dictionary a classifier returns; the rule-based one sets these three keys.\<close>

record analysis =
  sentiment :: pystr
  confidence :: rat
  explanation :: pystr

record sscores =
  panic :: int
  fear_anxiety :: int
  disbelief :: int
  resilience :: int
  neutral :: int

fun sscore :: "sscores \<Rightarrow> label \<Rightarrow> int" where
  "sscore sc Panic = panic sc"
| "sscore sc Fear_Anxiety = fear_anxiety sc"
| "sscore sc Disbelief = disbelief sc"
| "sscore sc Resilience = resilience sc"
| "sscore sc Neutral = neutral sc"

fun sbump :: "sscores \<Rightarrow> label \<Rightarrow> int \<Rightarrow> sscores" where
  "sbump sc Panic x = sc\<lparr>panic := panic sc + x\<rparr>"
| "sbump sc Fear_Anxiety x = sc\<lparr>fear_anxiety := fear_anxiety sc + x\<rparr>"
| "sbump sc Disbelief x = sc\<lparr>disbelief := disbelief sc + x\<rparr>"
| "sbump sc Resilience x = sc\<lparr>resilience := resilience sc + x\<rparr>"
| "sbump sc Neutral x = sc\<lparr>neutral := neutral sc + x\<rparr>"

definition zero_sscores :: sscores where
  "zero_sscores = \<lparr>panic = 0, fear_anxiety = 0, disbelief = 0, resilience = 0, neutral = 0\<rparr>"

text \<open>\<^verbatim>\<open>max(scores.values())\<close>.\<close>

definition smax :: "sscores \<Rightarrow> int" where
  "smax sc = max_of (map (sscore sc) labels) 0"

subsection \<open>The descriptive-without-emotion test\<close>

text \<open>The same three lines open the rule-based classifier and close both remote paths.\<close>

definition descriptive_cues :: "pystr list" where
  "descriptive_cues =
    [u ''may'', u ''there is'', u ''there was'', u ''nangyari'', u ''happened'', u ''maraming'',
     u ''many'', u ''several'', u ''buildings'', u ''collapsed'', u ''evacuated'']"

definition emotional_words :: "pystr list" where
  "emotional_words =
    [u ''nakakatakot'', u ''scary'', u ''afraid'', u ''takot'', u ''worried'', u ''kabado'',
     u ''help'', u ''tulong'', u ''saklolo'', u ''emergency'', u ''bantay'', u ''delikado'',
     u ''ingat'']"

definition emotional_markers :: "pystr list" where
  "emotional_markers =
    [u ''!!!'', u ''???'', u ''HELP'', u ''TULONG'', u ''OMG'', u ''OH MY GOD'']"

definition looks_descriptive :: "pystr \<Rightarrow> bool" where
  "looks_descriptive t = any_in descriptive_cues (lower t)"

definition has_emotion :: "pystr \<Rightarrow> bool" where
  "has_emotion t = (any_in emotional_words (lower t) \<or> any_in emotional_markers (upper t))"

subsection \<open>Short statements\<close>

definition emotion_words :: "pystr list" where
  "emotion_words =
    [u ''saklolo'', u ''help'', u ''tulong'', u ''tulungan'', u ''rescue'', u ''emergency'',
     u ''naiipit'', u ''nakulong'', u ''trapped'', u ''HELP'', u ''PLEASE'', u ''SOS'',
     u ''mamamatay'', [128561], [128557], [127384], [128148], u ''!!!'', u ''???'',
     u ''takot'', u ''scared'', u ''afraid'', u ''kinakabahan'', u ''natatakot'',
     u ''kabado'', u ''worried'', u ''anxious'', u ''fearful'', u ''nanginginig'',
     u ''nakakatakot'', u ''nakakapraning'', u ''makakaligtas kaya'', u ''paano na'',
     [128552], [128560], [128543], u ''hindi makapaniwala'', u ''seriously'', u ''omg'',
     u ''gosh'', (u ''can'' @ [39] @ u ''t believe''), u ''what the'', u ''wow'', u ''haha'',
     u ''baha na naman'', u ''classic'', u ''srsly'', u ''as usual'', [129327], [128580],
     [128518], [128529], u ''nice one'', u ''kapit'', u ''kaya natin'', u ''malalagpasan'',
     u ''babangon'', u ''walang susuko'', u ''prayers'', u ''pray'', u ''dasal'',
     u ''tulong tayo'', u ''magtulungan'', u ''sama-sama'', u ''matatag'', [128170],
     [128591], [127752], ([128330] @ [65039]), u ''namatay'', u ''patay'', u ''nasugatan'',
     u ''dead'', u ''died'', u ''killed'', u ''injured'', u ''walang buhay'', u ''nawawala'',
     u ''missing'', u ''casualty'', u ''iyak'', u ''cry'', u ''trauma'', u ''diyos ko'',
     u ''oh my god'', u ''lord help'', u ''dios mio'', u ''panginoon'',
     u ''tulungan nyo kami'']"

text \<open>\<^verbatim>\<open>len(text_lower.split())\<close>.\<close>

definition token_count :: "pystr \<Rightarrow> nat" where
  "token_count t = length (split_ws (lower t))"

definition contains_emotion :: "pystr \<Rightarrow> bool" where
  "contains_emotion t = any_in emotion_words (lower t)"

subsection \<open>Special patterns\<close>

definition profanity :: "rx list" where
  "profanity =
    [seqs [lit ''putang'', star CSpace, lit ''ina''], lit ''putangina'', lit ''tangina'',
     seqs [lit ''putang'', plus CSpace, lit ''ina''], lit ''punyeta'', lit ''gago'',
     lit ''bobo'', seqs [lit ''tang'', plus CSpace, lit ''ina''], lit ''tanginamo'',
     lit ''ulol'']"

text \<open>\<^verbatim>\<open>(putang\s*ina|...|ulol).*?[!?]{2,}\<close> and its mirror image.\<close>

definition profanity_then_marks :: rx where
  "profanity_then_marks =
     seqs [Grp (alts profanity), lazy_star CDot, two_or_more (COf (u ''!?''))]"

definition marks_then_profanity :: rx where
  "marks_then_profanity =
     seqs [two_or_more (COf (u ''!?'')), lazy_star CDot, Grp (alts profanity)]"

text \<open>\<^verbatim>\<open>PUTANG\s*INA|TANGINA|PUNYETA|GAGO|BOBO\<close>.\<close>

definition caps_profanity :: rx where
  "caps_profanity =
     alts [seqs [lit ''PUTANG'', star CSpace, lit ''INA''], lit ''TANGINA'', lit ''PUNYETA'',
           lit ''GAGO'', lit ''BOBO'']"

text \<open>\<^verbatim>\<open>\b(putang\s*ina|putangina|tangina|putang ina|punyeta|gago|bobo|tang ina|tanginamo|ulol)\b\<close>.\<close>

definition word_profanity :: rx where
  "word_profanity =
     seqs [WordB,
           Grp (alts [seqs [lit ''putang'', star CSpace, lit ''ina''], lit ''putangina'',
                      lit ''tangina'', lit ''putang ina'', lit ''punyeta'', lit ''gago'',
                      lit ''bobo'', lit ''tang ina'', lit ''tanginamo'', lit ''ulol'']),
           WordB]"

text \<open>\<^verbatim>\<open>[A-Z]{5,}.*?(!{2,}|\?{2,})\<close> and
  \<^verbatim>\<open>\b(putang\s*ina|tangina|punyeta|gago|bobo|tang ina)\b\<close>.\<close>

definition caps_then_marks :: rx where
  "caps_then_marks =
     seqs [Rep CUpper (Suc (Suc (Suc (Suc (Suc 0))))), lazy_star CDot,
           Grp (Alt (two_or_more (COf (u ''!''))) (two_or_more (COf (u ''?''))))]"

definition word_profanity_short :: rx where
  "word_profanity_short =
     seqs [WordB,
           Grp (alts [seqs [lit ''putang'', star CSpace, lit ''ina''], lit ''tangina'',
                      lit ''punyeta'', lit ''gago'', lit ''bobo'', lit ''tang ina'']),
           WordB]"

text \<open>\<^verbatim>\<open>MAY (SUNOG|BAHA|LINDOL|BAGYO|ERUPTION|GULO|BARILAN|AKSIDENTE)\<close>.\<close>

definition may_alert :: rx where
  "may_alert =
     Seq (lit ''MAY '')
         (Grp (alts [lit ''SUNOG'', lit ''BAHA'', lit ''LINDOL'', lit ''BAGYO'', lit ''ERUPTION'',
                     lit ''GULO'', lit ''BARILAN'', lit ''AKSIDENTE'']))"

text \<open>\<^verbatim>\<open>sum(1 for char in text if ord(char) > 127000)\<close> and
  \<^verbatim>\<open>len([w for w in text.split() if w.isalpha()])\<close>.\<close>

definition emoji_count :: "pystr \<Rightarrow> nat" where
  "emoji_count t = length (filter (\<lambda>c. 127000 < c) t)"

definition alpha_word_count :: "pystr \<Rightarrow> nat" where
  "alpha_word_count t = length (filter isalpha (split_ws t))"

definition many_emoji :: "pystr \<Rightarrow> bool" where
  "many_emoji t =
     (3 < emoji_count t \<and> (of_nat (alpha_word_count t) :: rat) / 2 < of_nat (emoji_count t))"

text \<open>One of the four laughing emoji is in the text.\<close>

definition laughing_emoji :: "pystr \<Rightarrow> bool" where
  "laughing_emoji t =
     (is_in [128514] t \<or> is_in [129315] t \<or> is_in [128518] t \<or> is_in [128517] t)"

definition help_word_upper :: "pystr \<Rightarrow> bool" where
  "help_word_upper t =
     (is_in (u ''TULONG'') (upper t) \<or> is_in (u ''SAKLOLO'') (upper t)
      \<or> is_in (u ''HELP'') (upper t))"

subsection \<open>Explanations\<close>

text \<open>The explanation strings of the classifier, in the order of the source.\<close>

definition expl_descriptive :: pystr where
  "expl_descriptive =
     u ''Descriptive statement without emotional markers. These types of ''
     @ u ''informative reports should be classified as Neutral regardless of ''
     @ u ''disaster content.''"

definition expl_simple :: pystr where
  "expl_simple =
     (u ''Simple statement without emotional indicators - analyzing exactly what'' @ [39] @ u ''s in the text.'')"

definition expl_profanity_marks :: pystr where
  "expl_profanity_marks =
     u ''Ang paggamit ng malakas na salita kasama ng maraming tandang padamdam ''
     @ u ''ay nagpapahiwatig ng matinding pagkabahala o takot.''"

definition expl_caps_profanity :: pystr where
  "expl_caps_profanity =
     u ''Ang paggamit ng malalaking titik sa mga malakas na salita ay ''
     @ u ''nagpapahiwatig ng matinding pagkabahala o takot.''"

definition expl_profanity :: pystr where
  "expl_profanity =
     u ''Ang teksto ay naglalaman ng matinding pagkapoot o pagkabahala na ''
     @ u ''karaniwang ginagamit sa mga emergency situations sa Filipino context.''"

definition expl_caps_profanity_marks :: pystr where
  "expl_caps_profanity_marks =
     u ''Ang paggamit ng malalaking titik, profanity, at maraming tandang ''
     @ u ''padamdam ay nagpapahiwatig ng matinding takot o pagkabahala.''"

definition expl_alert :: pystr where
  "expl_alert =
     u ''Mga emergency alertong Pilipino sa malalaking titik na may tandang ''
     @ u ''padamdam, nagpapahiwatig ng agarang panganib o matinding takot.''"

definition expl_laugh_emoji :: pystr where
  "expl_laugh_emoji =
     (u ''The laughing emoji combined with words like '' @ [39] @ u ''TULONG'' @ [39] @ u '' suggests disbelief or humor, not actual distress. This is a common pattern in Filipino social media to express sarcasm or jokes.'')"

definition expl_many_emoji :: pystr where
  "expl_many_emoji =
     u ''The excessive use of emojis suggests this is likely expressing ''
     @ u ''mockery or sarcasm rather than genuine information or distress.''"

definition expl_haha :: pystr where
  "expl_haha =
     (u ''The combination of laughter ('' @ [39] @ u ''HAHA'' @ [39] @ u '') and words like '' @ [39] @ u ''TULONG'' @ [39] @ u '' indicates this is expressing humor or disbelief, not actual panic. This is a common Filipino pattern for jokes or sarcasm.'')"

definition expl_none :: pystr where
  "expl_none =
     u ''No clear sentiment indicators found in text''"

definition expl_tie_emoji :: pystr where
  "expl_tie_emoji =
     u ''Multiple emojis indicate sarcasm or mockery rather than genuine ''
     @ u ''distress.''"

definition expl_help_request :: pystr where
  "expl_help_request =
     u ''Text contains explicit requests for help indicating urgent distress.''"

definition expl_news :: pystr where
  "expl_news =
     u ''Text uses news reporting style with factual information, not ''
     @ u ''expressing personal emotions.''"

definition expl_panic :: pystr where
  "expl_panic =
     u ''The text shows signs of urgent distress or calls for immediate help, ''
     @ u ''indicating panic.''"

definition expl_fear :: pystr where
  "expl_fear =
     u ''The message expresses worry, concern or apprehension about the ''
     @ u ''situation.''"

definition expl_mockery :: pystr where
  "expl_mockery =
     u ''The content contains laughter patterns and mockery, indicating ''
     @ u ''disbelief or skepticism about the reported situation.''"

definition expl_shock :: pystr where
  "expl_shock =
     u ''The content shows shock, surprise or inability to comprehend the ''
     @ u ''situation.''"

definition expl_resilience :: pystr where
  "expl_resilience =
     u ''The text demonstrates community support, offers of help, or positive ''
     @ u ''action toward recovery.''"

definition expl_neutral :: pystr where
  "expl_neutral =
     u ''The text appears informational or descriptive without strong ''
     @ u ''emotional indicators.''"

subsection \<open>Keyword scoring\<close>

text \<open>The dictionary \<^verbatim>\<open>sentiment_keywords\<close> has four keys; Neutral has no keywords.\<close>

definition keyword_labels :: "label list" where
  "keyword_labels = [Panic, Fear_Anxiety, Disbelief, Resilience]"

fun sentiment_keywords :: "label \<Rightarrow> pystr list" where
  "sentiment_keywords Panic =
    [u ''emergency'', u ''trapped'', u ''dying'', u ''death'', u ''urgent'', u ''critical'',
     u ''saklolo'', u ''naiipit'', u ''mamamatay'', u ''agad'', u ''kritikal'',
     u ''emerhensya'']"
| "sentiment_keywords Fear_Anxiety =
    [u ''scared'', u ''afraid'', u ''worried'', u ''fear'', u ''terrified'', u ''anxious'',
     u ''frightened'', u ''takot'', u ''natatakot'', u ''nag-aalala'', u ''kabado'',
     u ''kinakabahan'', u ''nangangamba'']"
| "sentiment_keywords Disbelief =
    [u ''unbelievable'', u ''impossible'', (u ''can'' @ [39] @ u ''t believe''),
     u ''no way'', (u ''what'' @ [39] @ u ''s happening''), u ''shocked'',
     u ''hindi kapani-paniwala'', u ''haha'', u ''hahaha'', u ''lol'', u ''lmao'',
     u ''ulol'', u ''gago'', u ''tanga'', u ''wtf'', u ''daw?'', u ''raw?'', u ''talaga?'',
     u ''really?'', u ''seriously?'', u ''seryoso?'', u ''?!'', u ''??'', u ''imposible'',
     u ''di ako makapaniwala'', u ''nagulat'', u ''gulat'']"
| "sentiment_keywords Resilience =
    [u ''stay strong'', u ''we will overcome'', u ''resilient'', u ''rebuild'',
     u ''recover'', u ''hope'', u ''lets help'', (u ''let'' @ [39] @ u ''s help''),
     u ''let us help'', u ''help them'', u ''malalampasan'', u ''tatayo ulit'',
     u ''magbabalik'', u ''pag-asa'', u ''malalagpasan'', u ''tulungan natin'',
     u ''tumulong'', u ''we can help'', u ''we will help'', u ''tutulong tayo'']"
| "sentiment_keywords Neutral = []"

text \<open>One point for every keyword of a category that occurs in the text.\<close>

definition keyword_scoring :: "pystr \<Rightarrow> sscores \<Rightarrow> sscores" where
  "keyword_scoring text_lower =
     fold (\<lambda>s. fold (\<lambda>keyword sc. if is_in keyword text_lower then sbump sc s 1 else sc)
                 (sentiment_keywords s)) keyword_labels"

subsection \<open>Contextual nudges\<close>

definition resilience_phrases :: "pystr list" where
  "resilience_phrases =
    [(u ''let'' @ [39] @ u ''s help''), u ''lets help'', u ''help them'',
     u ''tulungan natin'', u ''tumulong tayo'', u ''tulong sa'', u ''tulong para'',
     u ''tulungan ang'', u ''mag-donate'', u ''magbigay ng tulong'', u ''mag volunteer'',
     u ''magtulungan'', u ''donate'', u ''donation'', u ''we can help'', u ''we will help'',
     u ''tutulong tayo'', u ''support'', u ''donate'', u ''fundraising'', u ''fund raising'',
     u ''relief'', u ''relief goods'', u ''pagtulong'', u ''magbayanihan'', u ''bayanihan'',
     u ''volunteer'', u ''volunteers'']"

definition laughter_patterns :: "pystr list" where
  "laughter_patterns =
    [u ''haha'', u ''hehe'', u ''lol'', u ''lmao'', u ''ulol'', u ''gago'', u ''tanga'']"

definition laughter_count :: "pystr \<Rightarrow> nat" where
  "laughter_count text_lower =
     fold (\<lambda>pattern n. if is_in pattern text_lower then n + count_sub text_lower pattern else n)
          laughter_patterns 0"

text \<open>Repeated laughter next to a disaster word.\<close>

definition laughter_nudge :: "pystr \<Rightarrow> sscores \<Rightarrow> sscores" where
  "laughter_nudge text_lower sc =
     (if 2 \<le> laughter_count text_lower
         \<and> any_in [u ''sunog'', u ''fire'', u ''baha'', u ''flood''] text_lower
      then sbump sc Disbelief 3 else sc)"

text \<open>Every resilience phrase found adds 2 to Resilience and takes 1 from a positive Panic.\<close>

definition resilience_nudge :: "pystr \<Rightarrow> sscores \<Rightarrow> sscores" where
  "resilience_nudge text_lower =
     fold (\<lambda>phrase sc.
            if is_in phrase text_lower
            then (let sc' = sbump sc Resilience 2
                  in if 0 < panic sc' then sbump sc' Panic (- 1) else sc')
            else sc) resilience_phrases"

definition tulong_nudge :: "pystr \<Rightarrow> sscores \<Rightarrow> sscores" where
  "tulong_nudge text_lower sc =
     (if is_in (u ''tulong'') text_lower \<and> \<not> any_in resilience_phrases text_lower
      then sbump sc Panic 2 else sc)"

definition simple_statements :: "pystr list" where
  "simple_statements =
    [u ''may sunog'', u ''may baha'', u ''may lindol'', u ''there is a fire'',
     u ''there is a flood'', u ''there is an earthquake'']"

text \<open>A simple factual statement with no score above 1 is forced to Neutral.\<close>

definition simple_statement_override :: "pystr \<Rightarrow> sscores \<Rightarrow> sscores" where
  "simple_statement_override text_lower sc =
     (if any_in simple_statements text_lower
      then (if smax sc \<le> 1
            then sc\<lparr>neutral := 3, panic := 0, fear_anxiety := 0, disbelief := 0, resilience := 0\<rparr>
            else sc)
      else sc)"

definition panic_phrases :: "pystr list" where
  "panic_phrases =
    [u ''help me'', u ''save me'', u ''trapped'', (u ''can'' @ [39] @ u ''t breathe''),
     u ''tulungan ako'', u ''help us'', u ''saklolo'', u ''tulong!'', u ''naipit ako'',
     u ''hindi makahinga'', u ''naiipit'', u ''nakulong'', u ''nasasabit'',
     u ''naiipit kami'', u ''nanganganib ang buhay'', u ''stranded'', u ''nawalan ng bahay'',
     u ''walang makain'', u ''walang tubig'', u ''naputol'', u ''walang kuryente'',
     u ''nawawala'', u ''nawawalang tao'', u ''hinahanap'', u ''hinahanap namin'',
     u ''missing'', u ''casualty'', u ''casualties'', u ''patay'', u ''nasugatan'',
     u ''injured'', u ''nasaktan'']"

definition panic_phrase_pass :: "pystr \<Rightarrow> sscores \<Rightarrow> sscores" where
  "panic_phrase_pass text_lower =
     fold (\<lambda>phrase sc. if is_in phrase text_lower then sbump sc Panic 2 else sc) panic_phrases"

text \<open>
  \<^verbatim>\<open>" ".join(words[max(0, i-5) : min(len(words), i+after)])\<close>: the words around word \<open>i\<close>;
  the subtraction on \<open>nat\<close> stops at 0 as \<^verbatim>\<open>max(0, i-5)\<close> does.
\<close>

definition window :: "pystr list \<Rightarrow> nat \<Rightarrow> nat \<Rightarrow> pystr" where
  "window words i after =
     join (u '' '') (take (min (length words) (i + after) - (i - 5)) (drop (i - 5) words))"

text \<open>The windows of the words that contain the mark.\<close>

definition marked_phrases :: "pystr \<Rightarrow> nat \<Rightarrow> pystr list \<Rightarrow> pystr list" where
  "marked_phrases mark after words =
     map (\<lambda>i. window words i after) (filter (\<lambda>i. is_in mark (words ! i)) [0..<length words])"

definition exclamation_step :: "pystr \<Rightarrow> sscores \<Rightarrow> sscores" where
  "exclamation_step phrase sc =
     (if any_in [u ''help'', u ''emergency'', u ''saklolo'', u ''trapped'', u ''tulong'',
                 u ''danger''] phrase
      then (if \<not> any_in resilience_phrases phrase then sbump sc Panic 1 else sc)
      else if any_in [u ''donate'', (u ''let'' @ [39] @ u ''s help''), u ''support'',
                      u ''tulungan natin'', u ''assist''] phrase
      then sbump sc Resilience 1
      else if any_in [u ''what'', (u ''can'' @ [39] @ u ''t believe''), u ''ano'', u ''bakit'',
                      u ''hindi kapani-paniwala''] phrase
      then sbump sc Disbelief 1
      else sc)"

definition exclamation_pass :: "pystr \<Rightarrow> sscores \<Rightarrow> sscores" where
  "exclamation_pass t sc =
     (if is_in (u ''!'') t
      then fold exclamation_step (marked_phrases (u ''!'') 6 (split_ws (lower t))) sc
      else sc)"

definition question_step :: "pystr \<Rightarrow> sscores \<Rightarrow> sscores" where
  "question_step phrase sc =
     (let sc1 =
        (if any_in [u ''nasaan'', u ''where'', u ''kamusta'', u ''how'', u ''when'', u ''kailan'',
                    u ''ilang'', u ''how many''] phrase
            \<and> any_in [u ''victim'', u ''dead'', u ''casualties'', u ''stranded'', u ''missing'']
                      phrase
         then sbump sc Fear_Anxiety 1 else sc)
      in if any_in [u ''bakit'', u ''paano'', u ''why'', u ''how could'', u ''paanong''] phrase
         then sbump sc1 Disbelief 1 else sc1)"

definition question_pass :: "pystr \<Rightarrow> sscores \<Rightarrow> sscores" where
  "question_pass t sc =
     (if is_in (u ''?'') t
      then fold question_step (marked_phrases (u ''?'') 1 (split_ws (lower t))) sc
      else sc)"

text \<open>The words in capitals of more than two characters, lowered.\<close>

definition caps_words :: "pystr \<Rightarrow> pystr list" where
  "caps_words t = map lower (filter (\<lambda>word. isupper word \<and> 2 < length word) (split_ws t))"

definition caps_pass :: "pystr \<Rightarrow> sscores \<Rightarrow> sscores" where
  "caps_pass t sc =
     (if 1 < length (filter (\<lambda>word. isupper word \<and> 2 < length word) (split_ws t))
      then (if list_ex (\<lambda>word. word \<in> set (caps_words t))
                  [u ''emergency'', u ''tulong'', u ''saklolo'', u ''help'', u ''rescue'']
            then (if \<not> any_in resilience_phrases (lower t) then sbump sc Panic 1 else sc)
            else if any_in [u ''donate'', u ''tulungan'', u ''help'', u ''lets'', u ''tumulong'']
                           (join (u '' '') (caps_words t))
            then (if any_in resilience_phrases (lower t) then sbump sc Resilience 1 else sc)
            else sc)
      else sc)"

text \<open>The scores after all passes, in the order of the source.\<close>

definition final_scores :: "pystr \<Rightarrow> sscores" where
  "final_scores t =
     (let text_lower = lower t
      in caps_pass t (question_pass t (exclamation_pass t
           (panic_phrase_pass text_lower (simple_statement_override text_lower
             (tulong_nudge text_lower (resilience_nudge text_lower
               (laughter_nudge text_lower (keyword_scoring text_lower zero_sscores)))))))))"

subsection \<open>Choice of the sentiment and confidence\<close>

text \<open>\<^verbatim>\<open>[s for s, score in scores.items() if score == max_score]\<close>.\<close>

definition top_sentiments :: "sscores \<Rightarrow> label list" where
  "top_sentiments sc = filter (\<lambda>s. sscore sc s = smax sc) labels"

definition sentiment_priority :: "label list" where
  "sentiment_priority = [Panic, Fear_Anxiety, Resilience, Disbelief, Neutral]"

definition is_reporting_style :: "pystr \<Rightarrow> bool" where
  "is_reporting_style text_lower =
     any_in [u ''news'', u ''bulletin'', u ''flash report'', u ''balita'', u ''ulat'',
             u ''breaking news'', u ''headline''] text_lower"

definition has_help_request :: "pystr \<Rightarrow> bool" where
  "has_help_request text_lower =
     any_in [u ''please help'', u ''help please'', u ''need help'', u ''kailangan ng tulong'',
             u ''pakitulong'', u ''pakigalaw po'', u ''asap''] text_lower"

text \<open>The explanation that goes with the chosen sentiment.\<close>

fun explanation_for :: "label \<Rightarrow> nat \<Rightarrow> pystr" where
  "explanation_for Panic n = expl_panic"
| "explanation_for Fear_Anxiety n = expl_fear"
| "explanation_for Disbelief n = (if 2 \<le> n then expl_mockery else expl_shock)"
| "explanation_for Resilience n = expl_resilience"
| "explanation_for Neutral n = expl_neutral"

text \<open>
  The confidence is \<^verbatim>\<open>0.70 + (max_score * 0.03)\<close>, rounded to two decimals, with no
  upper limit.  \<open>None\<close> stands for a \<^verbatim>\<open>sentiment\<close> that was never assigned, which the
  source reads as Neutral.
\<close>

definition score_confidence :: "int \<Rightarrow> rat" where
  "score_confidence max_score =
     round2 (if max_score = 0 then 0.70 else 0.70 + of_int max_score * 0.03)"

definition finish :: "pystr \<Rightarrow> int \<Rightarrow> label option \<Rightarrow> analysis" where
  "finish t max_score chosen =
     (let sentiment_value = (case chosen of Some s \<Rightarrow> s | None \<Rightarrow> Neutral)
      in \<lparr>sentiment = label_name sentiment_value,
          confidence = score_confidence max_score,
          explanation = explanation_for sentiment_value (laughter_count (lower t))\<rparr>)"

definition scored_analysis :: "pystr \<Rightarrow> analysis" where
  "scored_analysis t =
     (let text_lower = lower t;
          scores = final_scores t;
          max_score = smax scores
      in if max_score = 0
         then \<lparr>sentiment = u ''Neutral'', confidence = 0.83, explanation = expl_none\<rparr>
         else let top = top_sentiments scores
              in if length top = 1 then finish t max_score (Some (hd top))
                 else if Neutral \<in> set top \<and> length (split_ws text_lower) < 7
                 then finish t max_score (Some Neutral)
                 else if many_emoji t \<and> Disbelief \<in> set top
                 then \<lparr>sentiment = u ''Disbelief'', confidence = 0.92,
                        explanation = expl_tie_emoji\<rparr>
                 else if has_help_request text_lower \<and> Panic \<in> set top
                 then \<lparr>sentiment = u ''Panic'', confidence = 0.95,
                        explanation = expl_help_request\<rparr>
                 else if is_reporting_style text_lower \<and> Neutral \<in> set top
                 then \<lparr>sentiment = u ''Neutral'', confidence = 0.90, explanation = expl_news\<rparr>
                 else finish t max_score (find (\<lambda>s. s \<in> set top) sentiment_priority))"

text \<open>The checks that return before any scoring, in the order of the source.\<close>

definition special_cases :: "pystr \<Rightarrow> analysis option" where
  "special_cases t =
     (if looks_descriptive t \<and> \<not> has_emotion t
      then Some \<lparr>sentiment = u ''Neutral'', confidence = 0.92, explanation = expl_descriptive\<rparr>
      else if token_count t \<le> 3 \<and> \<not> contains_emotion t
      then Some \<lparr>sentiment = u ''Neutral'', confidence = 0.90, explanation = expl_simple\<rparr>
      else if re_found profanity_then_marks (lower t) \<or> re_found marks_then_profanity (lower t)
      then Some \<lparr>sentiment = u ''Panic'', confidence = 0.97,
                  explanation = expl_profanity_marks\<rparr>
      else if re_found caps_profanity t
      then Some \<lparr>sentiment = u ''Panic'', confidence = 0.96,
                  explanation = expl_caps_profanity\<rparr>
      else if re_found word_profanity (lower t)
      then Some \<lparr>sentiment = u ''Panic'', confidence = 0.92, explanation = expl_profanity\<rparr>
      else if re_found caps_then_marks t \<and> re_found word_profanity_short (lower t)
      then Some \<lparr>sentiment = u ''Panic'', confidence = 0.95,
                  explanation = expl_caps_profanity_marks\<rparr>
      else if isupper t \<and> re_found may_alert t \<and> is_in (u ''!'') t
      then Some \<lparr>sentiment = u ''Panic'', confidence = 0.94, explanation = expl_alert\<rparr>
      else if laughing_emoji t \<and> help_word_upper t
      then Some \<lparr>sentiment = u ''Disbelief'', confidence = 0.95,
                  explanation = expl_laugh_emoji\<rparr>
      else if many_emoji t
      then Some \<lparr>sentiment = u ''Disbelief'', confidence = 0.90,
                  explanation = expl_many_emoji\<rparr>
      else if (is_in (u ''HAHA'') (upper t) \<or> is_in (u ''HEHE'') (upper t)) \<and> help_word_upper t
      then Some \<lparr>sentiment = u ''Disbelief'', confidence = 0.92, explanation = expl_haha\<rparr>
      else None)"

text \<open>\<^verbatim>\<open>_rule_based_sentiment_analysis(text, language)\<close>.\<close>

definition rule_based_sentiment_analysis :: "pystr \<Rightarrow> pystr \<Rightarrow> analysis" where
  "rule_based_sentiment_analysis t lang =
     (case special_cases t of Some r \<Rightarrow> r | None \<Rightarrow> scored_analysis t)"

text \<open>The confidences that the classifier returns as constants.\<close>

definition fixed_confidences :: "rat set" where
  "fixed_confidences = {0.83, 0.90, 0.92, 0.94, 0.95, 0.96, 0.97}"

subsection \<open>Sample texts\<close>

definition five_panic_phrases :: pystr where
  "five_panic_phrases = u ''trapped stranded missing patay injured''"

section \<open>Location extractor\<close>

subsection \<open>Tables\<close>

text \<open>The dictionary \<^verbatim>\<open>misspelling_map\<close>, in insertion order.\<close>

definition misspelling_map :: "(pystr \<times> pystr) list" where
  "misspelling_map =
    [(u ''maynila'', u ''manila''), (u ''mnl'', u ''manila''), (u ''mnla'', u ''manila''),
     (u ''manilla'', u ''manila''), (u ''kyusi'', u ''quezon city''),
     (u ''qc'', u ''quezon city''), (u ''q.c'', u ''quezon city''),
     (u ''quiapo'', u ''manila''), (u ''makate'', u ''makati''),
     (u ''makati city'', u ''makati''), (u ''bgc'', u ''taguig''),
     (u ''taguig city'', u ''taguig''), (u ''m.manila'', u ''metro manila''),
     (u ''metromanila'', u ''metro manila''), (u ''calocan'', u ''caloocan''),
     (u ''kalookan'', u ''caloocan''), (u ''kalokan'', u ''caloocan''),
     (u ''caloocan city'', u ''caloocan''), (u ''pasay city'', u ''pasay''),
     (u ''muntinlupa city'', u ''muntinlupa''), (u ''valenzuela city'', u ''valenzuela''),
     (u ''las pinas'', (u ''las pi'' @ [241] @ u ''as'')),
     (u ''laspinas'', (u ''las pi'' @ [241] @ u ''as'')),
     ((u ''laspi'' @ [241] @ u ''as''), (u ''las pi'' @ [241] @ u ''as'')),
     (u ''marikina city'', u ''marikina''),
     (u ''paranaque'', (u ''para'' @ [241] @ u ''aque'')),
     (u ''paranaque city'', (u ''para'' @ [241] @ u ''aque'')),
     ((u ''para'' @ [241] @ u ''aque city''), (u ''para'' @ [241] @ u ''aque'')),
     (u ''sampaloc'', u ''manila''), (u ''intramuros'', u ''manila''),
     (u ''pandacan'', u ''manila''), (u ''paco'', u ''manila''),
     (u ''baguio city'', u ''baguio''), (u ''cebu city'', u ''cebu''),
     (u ''davao city'', u ''davao''), (u ''iloilo city'', u ''iloilo''),
     (u ''cdo'', u ''cagayan de oro''), (u ''cdeo'', u ''cagayan de oro''),
     (u ''zamboanga city'', u ''zamboanga''), (u ''bacolod city'', u ''bacolod''),
     (u ''gen san'', u ''general santos''), (u ''gensan'', u ''general santos''),
     (u ''tacloban city'', u ''tacloban''), (u ''legazpi'', u ''legaspi''),
     (u ''legaspi city'', u ''legaspi''), (u ''legazpi city'', u ''legaspi''),
     (u ''naga city'', u ''naga''), (u ''batangas city'', u ''batangas''),
     (u ''cavite city'', u ''cavite''), (u ''dagupan city'', u ''dagupan''),
     (u ''laoag city'', u ''laoag''), (u ''lucena city'', u ''lucena''),
     (u ''tagaytay city'', u ''tagaytay''), (u ''iligan city'', u ''iligan''),
     (u ''cotabato city'', u ''cotabato''), (u ''butuan city'', u ''butuan''),
     (u ''cainta'', u ''rizal''), (u ''antipolo'', u ''rizal''), (u ''taytay'', u ''rizal''),
     (u ''bayan ng taytay'', u ''rizal''), (u ''zambales province'', u ''zambales''),
     (u ''pangasinan province'', u ''pangasinan''), (u ''benguet province'', u ''benguet''),
     (u ''camarines sur'', u ''camarines''), (u ''camarines norte'', u ''camarines''),
     (u ''north cotabato'', u ''cotabato''),
     (u ''maguindanao del norte'', u ''maguindanao''),
     (u ''maguindanao del sur'', u ''maguindanao'')]"

text \<open>The list \<^verbatim>\<open>ph_locations\<close> as written, and the provinces that extend it.\<close>

definition ph_locations_base :: "pystr list" where
  "ph_locations_base =
    [u ''NCR'', u ''Metro Manila'', u ''CAR'', u ''Cordillera'', u ''Ilocos'',
     u ''Cagayan Valley'', u ''Central Luzon'', u ''CALABARZON'', u ''MIMAROPA'',
     u ''Bicol'', u ''Western Visayas'', u ''Central Visayas'', u ''Eastern Visayas'',
     u ''Zamboanga Peninsula'', u ''Northern Mindanao'', u ''Davao Region'',
     u ''SOCCSKSARGEN'', u ''Caraga'', u ''BARMM'', u ''Bangsamoro'', u ''Manila'',
     u ''Quezon City'', u ''Makati'', u ''Taguig'', u ''Pasig'', u ''Mandaluyong'',
     u ''Pasay'', u ''Caloocan'', (u ''Para'' @ [241] @ u ''aque''),
     (u ''Las Pi'' @ [241] @ u ''as''), u ''Muntinlupa'', u ''Marikina'', u ''Valenzuela'',
     u ''Malabon'', u ''Navotas'', u ''San Juan'', u ''Pateros'', u ''Tondo'',
     u ''Sampaloc'', u ''Malate'', u ''Paco'', u ''Intramuros'', u ''Quiapo'', u ''Binondo'',
     u ''Ermita'', u ''San Nicolas'', u ''San Miguel'', u ''Santa Cruz'', u ''Santa Mesa'',
     u ''Pandacan'', u ''Port Area'', u ''Sta. Ana'', u ''Tipi'', u ''TIPI'', u ''Tipas'',
     u ''Tipas Taguig'', u ''Napindan'', u ''Baguio'', u ''Cebu'', u ''Davao'', u ''Iloilo'',
     u ''Cagayan de Oro'', u ''Zamboanga'', u ''Bacolod'', u ''General Santos'',
     u ''Tacloban'', u ''Angeles'', u ''Olongapo'', u ''Naga'', u ''Butuan'', u ''Cotabato'',
     u ''Dagupan'', u ''Iligan'', u ''Laoag'', u ''Legazpi'', u ''Lucena'',
     u ''Puerto Princesa'', u ''Roxas'', u ''Tipi'', u ''Tagaytay'', u ''Tagbilaran'',
     u ''Tarlac'', u ''Tuguegarao'', u ''Vigan'', u ''Cabanatuan'', u ''Bago'',
     u ''Batangas City'', u ''Bayawan'', u ''Calbayog'', u ''Cauayan'', u ''Dapitan'',
     u ''Digos'', u ''Dipolog'', u ''Dumaguete'', u ''El Salvador'', u ''Gingoog'',
     u ''Himamaylan'', u ''Iriga'', u ''Kabankalan'', u ''Kidapawan'', u ''La Carlota'',
     u ''Lamitan'', u ''Lipa'', u ''Maasin'', u ''Malaybalay'', u ''Malolos'', u ''Mati'',
     u ''Meycauayan'', u ''Oroquieta'', u ''Ozamiz'', u ''Pagadian'', u ''Palayan'',
     u ''Panabo'', u ''Sorsogon City'', u ''Surigao City'', u ''Tabuk'', u ''Tandag'',
     u ''Tangub'', u ''Tanjay'', u ''Urdaneta'', u ''Valencia'', u ''Zamboanga City'']"

definition provinces :: "pystr list" where
  "provinces =
    [u ''Abra'', u ''Agusan del Norte'', u ''Agusan del Sur'', u ''Aklan'', u ''Albay'',
     u ''Antique'', u ''Apayao'', u ''Aurora'', u ''Basilan'', u ''Bataan'', u ''Batanes'',
     u ''Batangas'', u ''Benguet'', u ''Biliran'', u ''Bohol'', u ''Bukidnon'',
     u ''Bulacan'', u ''Cagayan'', u ''Camarines Norte'', u ''Camarines Sur'',
     u ''Camiguin'', u ''Capiz'', u ''Catanduanes'', u ''Cavite'', u ''Cebu'',
     u ''Cotabato'', u ''Davao de Oro'', u ''Davao del Norte'', u ''Davao del Sur'',
     u ''Davao Oriental'', u ''Dinagat Islands'', u ''Eastern Samar'', u ''Guimaras'',
     u ''Ifugao'', u ''Ilocos Norte'', u ''Ilocos Sur'', u ''Iloilo'', u ''Isabela'',
     u ''Kalinga'', u ''La Union'', u ''Laguna'', u ''Lanao del Norte'', u ''Lanao del Sur'',
     u ''Leyte'', u ''Maguindanao'', u ''Marinduque'', u ''Masbate'',
     u ''Misamis Occidental'', u ''Misamis Oriental'', u ''Mountain Province'',
     u ''Negros Occidental'', u ''Negros Oriental'', u ''Northern Samar'', u ''Nueva Ecija'',
     u ''Nueva Vizcaya'', u ''Occidental Mindoro'', u ''Oriental Mindoro'', u ''Palawan'',
     u ''Pampanga'', u ''Pangasinan'', u ''Quezon'', u ''Quirino'', u ''Rizal'',
     u ''Romblon'', u ''Samar'', u ''Sarangani'', u ''Siquijor'', u ''Sorsogon'',
     u ''South Cotabato'', u ''Southern Leyte'', u ''Sultan Kudarat'', u ''Sulu'',
     u ''Surigao del Norte'', u ''Surigao del Sur'', u ''Tarlac'', u ''Tawi-Tawi'',
     u ''Zambales'', u ''Zamboanga del Norte'', u ''Zamboanga del Sur'',
     u ''Zamboanga Sibugay'']"

definition ph_locations :: "pystr list" where
  "ph_locations = ph_locations_base @ provinces"

subsection \<open>Patterns\<close>

definition marks :: cls where
  "marks = COf (u ''!.?'')"

text \<open>\<^verbatim>\<open>MAY\s+\w+\s+SA\s+([A-Z]+)[\!\.\?]*\<close> and \<^verbatim>\<open>SA\s+([A-Z]+)[\!\.\?]*\<close>.\<close>

definition upper_emergency :: rx where
  "upper_emergency =
     seqs [lit ''MAY'', plus CSpace, plus CWord, plus CSpace, lit ''SA'', plus CSpace,
           Grp (plus CUpper), star marks]"

definition upper_sa :: rx where
  "upper_sa = seqs [lit ''SA'', plus CSpace, Grp (plus CUpper), star marks]"

text \<open>\<^verbatim>\<open>prefix ([a-zA-Z]+)\<close> and \<^verbatim>\<open>prefix ([\w\s]+?)[\!\.\?]\<close>.\<close>

definition then_letters :: "string \<Rightarrow> rx" where
  "then_letters s = Seq (lit s) (Grp (plus CLetter))"

definition then_until_mark :: "string \<Rightarrow> rx" where
  "then_until_mark s = seqs [lit s, Grp (lazy_plus CWordSpace), One marks]"

definition emergency_location_patterns :: "rx list" where
  "emergency_location_patterns =
    [then_letters ''may sunog sa '', then_letters ''may baha sa '',
     then_letters ''may lindol sa '', then_letters ''may bagyo sa '',
     then_letters ''may landslide sa '', then_letters ''nasunugan sa '',
     then_letters ''binaha sa '', then_letters ''may eruption sa '',
     then_until_mark ''may sunog sa '', then_until_mark ''may baha sa '',
     then_until_mark ''may lindol sa '']"

text \<open>\<^verbatim>\<open>\bsa\s+([\w\s]+?)[\!\.\?]\<close>.\<close>

definition sa_pattern :: rx where
  "sa_pattern = seqs [WordB, lit ''sa'', plus CSpace, Grp (lazy_plus CWordSpace), One marks]"

text \<open>\<^verbatim>\<open>\b\w+\b\<close>.\<close>

definition word_pattern :: rx where
  "word_pattern = seqs [WordB, plus CWord, WordB]"

text \<open>\<^verbatim>\<open>([A-Za-z][a-z]+(?:\s+[A-Za-z][a-z]+)?)\<close>, the place name of the patterns of step 5.\<close>

definition place_name :: rx where
  "place_name =
     Grp (seqs [One CLetter, plus CLower,
                Opt (seqs [plus CSpace, One CLetter, plus CLower])])"

definition place_patterns :: "rx list" where
  "place_patterns =
    [seqs [alts [lit ''in'', lit ''at'', lit ''from'', lit ''to'', lit ''near'', lit ''around''],
           plus CSpace, place_name],
     seqs [alts [lit ''sa'', lit ''ng'', lit ''mula'', lit ''papunta'', lit ''malapit'',
                 lit ''dito sa'', lit ''nangyari sa'', lit ''galing sa''],
           plus CSpace, place_name],
     seqs [alts [lit ''baha sa'', lit ''lindol sa'', lit ''sunog sa'', lit ''bagyo sa'',
                 lit ''landslide sa'', lit ''putok ng bulkan sa''],
           plus CSpace, place_name],
     seqs [lit ''affected area'', Opt (lit ''s''), lit '' '',
           alts [lit ''include'', lit ''are'', lit ''is''], plus CSpace, place_name],
     seqs [lit ''apektadong lugar'', plus CSpace, Opt (alts [lit ''ay'', lit ''ang'']),
           plus CSpace, place_name],
     seqs [alts [lit ''city of'', lit ''municipality of'', lit ''town of'', lit ''province of'',
                 lit ''bayan ng'', lit ''lungsod ng'', lit ''lalawigan ng''],
           plus CSpace, place_name]]"

subsection \<open>The stages\<close>

text \<open>The first element for which the function answers.\<close>

fun first_some :: "('a \<Rightarrow> 'b option) \<Rightarrow> 'a list \<Rightarrow> 'b option" where
  "first_some f [] = None"
| "first_some f (x # xs) = (case f x of Some y \<Rightarrow> Some y | None \<Rightarrow> first_some f xs)"

text \<open>\<^verbatim>\<open>matches = re.findall(pattern, t)\<close>; the first match, stripped, is the answer in
  Title Case when it has more than one character.\<close>

definition pattern_location :: "pystr \<Rightarrow> rx \<Rightarrow> pystr option" where
  "pattern_location t pattern =
     (case findall pattern t of
        [] \<Rightarrow> None
      | m # _ \<Rightarrow> (let location = strip m
                   in if 1 < length location then Some (title location) else None))"

text \<open>Stage (a): the two templates in capitals, tried on a text in capitals.\<close>

definition upper_stage :: "pystr \<Rightarrow> pystr option" where
  "upper_stage t =
     (if isupper t then first_some (pattern_location t) [upper_emergency, upper_sa] else None)"

text \<open>Stage (b): the emergency patterns, then \<^verbatim>\<open>sa\<close> before a mark, on the lowered text.\<close>

definition emergency_stage :: "pystr \<Rightarrow> pystr option" where
  "emergency_stage text_lower =
     first_some (pattern_location text_lower) (emergency_location_patterns @ [sa_pattern])"

text \<open>Step 1: a known misspelling names the location whose lowered name is its correction.\<close>

definition misspelling_stage :: "pystr \<Rightarrow> pystr option" where
  "misspelling_stage text_lower =
     first_some (\<lambda>(misspelling, correct).
        if is_in misspelling text_lower
        then find (\<lambda>loc. lower loc = correct) ph_locations else None) misspelling_map"

text \<open>Step 2: \<^verbatim>\<open>\b\<close> + the lowered name + \<^verbatim>\<open>\b\<close> is found; the first such name of the list.\<close>

definition whole_word :: "pystr \<Rightarrow> pystr \<Rightarrow> bool" where
  "whole_word loc text_lower = re_found (seqs [WordB, Lit (lower loc), WordB]) text_lower"

definition whole_word_stage :: "pystr \<Rightarrow> pystr option" where
  "whole_word_stage text_lower =
     (case filter (\<lambda>loc. whole_word loc text_lower) ph_locations of
        [] \<Rightarrow> None | loc # _ \<Rightarrow> Some loc)"

text \<open>Step 3: the lowered name occurs anywhere.\<close>

definition substring_stage :: "pystr \<Rightarrow> pystr option" where
  "substring_stage text_lower = find (\<lambda>loc. is_in (lower loc) text_lower) ph_locations"

text \<open>Step 4: positions that differ plus the difference of the lengths, within 1 edit for a
  part of at most 5 characters and 2 otherwise.\<close>

definition fuzzy_close :: "pystr \<Rightarrow> pystr \<Rightarrow> bool" where
  "fuzzy_close word part =
     (let max_edits = (if length part \<le> 5 then 1 else 2 :: nat);
          len_diff = (if length word \<le> length part then length part - length word
                      else length word - length part)
      in len_diff \<le> max_edits
         \<and> length (filter (\<lambda>(a, b). a \<noteq> b) (zip word part)) + len_diff \<le> max_edits)"

definition fuzzy_parts :: "pystr \<Rightarrow> pystr \<Rightarrow> bool" where
  "fuzzy_parts word loc_lower =
     list_ex (\<lambda>part. 3 < length part \<and> fuzzy_close word part) (split_ws loc_lower)"

definition fuzzy_stage :: "pystr \<Rightarrow> pystr option" where
  "fuzzy_stage text_lower =
     first_some (\<lambda>word.
        if 3 < length word
        then find (\<lambda>loc. 3 < length loc \<and> fuzzy_parts word (lower loc)) ph_locations
        else None) (findall word_pattern text_lower)"

text \<open>Step 5: a place name after a preposition, equal to a location or close to a part.\<close>

definition place_matches :: "pystr \<Rightarrow> pystr \<Rightarrow> bool" where
  "place_matches match_lower loc =
     (match_lower = lower loc
      \<or> (3 < length match_lower \<and> 3 < length (lower loc)
          \<and> fuzzy_parts match_lower (lower loc)))"

definition place_stage :: "pystr \<Rightarrow> pystr option" where
  "place_stage t =
     first_some (\<lambda>pattern.
        first_some (\<lambda>m. find (place_matches (lower m)) ph_locations) (findall pattern t))
       place_patterns"

text \<open>The last heuristic: a flooded road and a word for Manila.\<close>

definition flood_road_stage :: "pystr \<Rightarrow> pystr option" where
  "flood_road_stage text_lower =
     (if is_in (u ''baha'') text_lower
         \<and> (is_in (u ''kalsada'') text_lower \<or> is_in (u ''daan'') text_lower
             \<or> is_in (u ''street'') text_lower)
         \<and> any_in [u ''manila'', u ''maynila'', u ''mnl'', u ''ncr'', u ''metro''] text_lower
      then Some (u ''Manila'') else None)"

text \<open>The first of two answers.\<close>

definition or_else :: "'a option \<Rightarrow> 'a option \<Rightarrow> 'a option" where
  "or_else x y = (case x of Some v \<Rightarrow> Some v | None \<Rightarrow> y)"

text \<open>\<^verbatim>\<open>extract_location(text)\<close>: the first stage that answers.\<close>

definition extract_location :: "pystr \<Rightarrow> pystr" where
  "extract_location t =
     (if t = [] then u ''UNKNOWN''
      else let text_lower = lower t
           in case or_else (upper_stage t)
                  (or_else (emergency_stage text_lower)
                  (or_else (misspelling_stage text_lower)
                  (or_else (whole_word_stage text_lower)
                  (or_else (substring_stage text_lower)
                  (or_else (fuzzy_stage text_lower)
                  (or_else (place_stage t) (flood_road_stage text_lower))))))) of
                Some loc \<Rightarrow> loc
              | None \<Rightarrow> u ''UNKNOWN'')"

section \<open>Remote classifier adapter and key pool\<close>

text \<open>
  The dictionary that the classification functions return.  \<open>None\<close> in one of the last
  three fields is a key that is absent (or holds \<^verbatim>\<open>None\<close>).
\<close>

record classification = analysis +
  disasterType :: "pystr option"
  location :: "pystr option"
  language :: "pystr option"

text \<open>The JSON object of a remote answer; a field that is present holds a value of the
  expected type.\<close>

record reply =
  r_sentiment :: "pystr option"
  r_confidence :: "rat option"
  r_explanation :: "pystr option"
  r_disasterType :: "pystr option"
  r_location :: "pystr option"
  r_language :: "pystr option"

text \<open>
  What one attempt with one key comes to: status 429, any exception (network, status,
  unparsable content), or a parsed JSON object.  After the first two the loop goes on with
  the next key.
\<close>

datatype outcome = Rate_Limited | Request_Failed | Answered reply

text \<open>The state of the object that the functions below read and write.\<close>

record backend =
  api_keys :: "pystr list"
  current_key_index :: nat
  key_success_count :: "nat \<Rightarrow> nat"
  trained_examples :: "pystr \<rightharpoonup> pystr"
  location_examples :: "pystr \<rightharpoonup> pystr"
  disaster_examples :: "pystr \<rightharpoonup> pystr"

definition with_defaults :: "'a option \<Rightarrow> 'a \<Rightarrow> 'a" where
  "with_defaults x d = (case x of Some v \<Rightarrow> v | None \<Rightarrow> d)"

text \<open>The correction after a remote answer: a descriptive text without emotion is not
  Fear/Anxiety.\<close>

definition post_process :: "pystr \<Rightarrow> pystr \<Rightarrow> pystr" where
  "post_process t sent =
     (if looks_descriptive t \<and> \<not> has_emotion t \<and> sent = u ''Fear/Anxiety''
      then u ''Neutral'' else sent)"

text \<open>The fields that a remote answer lacks are filled in, then the sentiment is corrected.\<close>

definition complete_reply :: "pystr \<Rightarrow> pystr \<Rightarrow> reply \<Rightarrow> classification" where
  "complete_reply t lang r =
     \<lparr>sentiment = post_process t (with_defaults (r_sentiment r) (u ''Neutral'')),
      confidence = with_defaults (r_confidence r) 0.7,
      explanation = with_defaults (r_explanation r) (u ''No explanation provided''),
      disasterType = Some (with_defaults (r_disasterType r) (extract_disaster_type t)),
      location = Some (with_defaults (r_location r) (extract_location t)),
      language = Some (with_defaults (r_language r) lang)\<rparr>"

text \<open>The rule-based result when no key is loaded: the confidence is rounded, nothing is
  added.\<close>

definition fallback_plain :: "pystr \<Rightarrow> pystr \<Rightarrow> classification" where
  "fallback_plain t lang =
     (let fallback_result = rule_based_sentiment_analysis t lang
      in \<lparr>sentiment = sentiment fallback_result,
          confidence = round2 (confidence fallback_result),
          explanation = explanation fallback_result,
          disasterType = None, location = None, language = None\<rparr>)"

text \<open>The rule-based result when every attempt failed, with the extracted metadata.\<close>

definition fallback_full :: "pystr \<Rightarrow> pystr \<Rightarrow> classification" where
  "fallback_full t lang =
     (let fallback_result = rule_based_sentiment_analysis t lang
      in \<lparr>sentiment = sentiment fallback_result,
          confidence = round2 (confidence fallback_result),
          explanation = explanation fallback_result,
          disasterType = Some (extract_disaster_type t),
          location = Some (extract_location t),
          language = Some lang\<rparr>)"

text \<open>
  \<^verbatim>\<open>for attempt in range(min(3, num_keys))\<close>: the key at
  \<^verbatim>\<open>(current_key_index + attempt) % num_keys\<close> is tried; \<open>remote\<close> tells what the service
  does with the key of a given index during this request.  Only a success moves the
  pointer, to the key after the one that answered.
\<close>

fun try_keys :: "(nat \<Rightarrow> outcome) \<Rightarrow> pystr \<Rightarrow> pystr \<Rightarrow> backend \<Rightarrow> nat list
    \<Rightarrow> classification \<times> backend" where
  "try_keys remote t lang st [] = (fallback_full t lang, st)"
| "try_keys remote t lang st (attempt # attempts) =
     (let num_keys = length (api_keys st);
          key_index = (current_key_index st + attempt) mod num_keys
      in case remote key_index of
           Answered r \<Rightarrow>
             (complete_reply t lang r,
              st\<lparr>current_key_index := (key_index + 1) mod num_keys,
                 key_success_count :=
                   (key_success_count st)(key_index := key_success_count st key_index + 1)\<rparr>)
         | Rate_Limited \<Rightarrow> try_keys remote t lang st attempts
         | Request_Failed \<Rightarrow> try_keys remote t lang st attempts)"

definition get_api_sentiment_analysis ::
    "(nat \<Rightarrow> outcome) \<Rightarrow> pystr \<Rightarrow> pystr \<Rightarrow> backend \<Rightarrow> classification \<times> backend" where
  "get_api_sentiment_analysis remote t lang st =
     (let num_keys = length (api_keys st)
      in if num_keys = 0 then (fallback_plain t lang, st)
         else try_keys remote t lang st [0..<min 3 num_keys])"



definition answers_none :: "(nat \<Rightarrow> outcome) \<Rightarrow> bool" where
  "answers_none remote = (\<forall>k. remote k = Rate_Limited \<or> remote k = Request_Failed)"

text \<open>A pool of two keys with the pointer at the first, for the examples.\<close>

definition two_keys :: backend where
  "two_keys = \<lparr>api_keys = [u ''key-1'', u ''key-2''], current_key_index = 0,
               key_success_count = (\<lambda>i. 0), trained_examples = Map.empty,
               location_examples = Map.empty, disaster_examples = Map.empty\<rparr>"

definition empty_reply :: reply where
  "empty_reply = \<lparr>r_sentiment = None, r_confidence = None, r_explanation = None,
                   r_disasterType = None, r_location = None, r_language = None\<rparr>"

section \<open>Batch pipeline: pacing\<close>



datatype event =
    Batch_Start nat nat nat
  | Record nat
  | Batch_Complete nat
  | Small_File
  | Cooldown_Tick nat
  | Sleep nat
  | Cooldown_Complete







fun seconds_slept :: "event list \<Rightarrow> nat" where
  "seconds_slept [] = 0"
| "seconds_slept (Sleep s # es) = s + seconds_slept es"
| "seconds_slept (e # es) = seconds_slept es"


section \<open>Feedback and validation\<close>

text \<open>
  What the validation request comes to.  Without a key, after an exception or a status
  other than 200, and when the answer cannot be processed, the rule-based classifier
  re-classifies the text (\<open>V_Unavailable\<close>); content that is not JSON ends the validation
  (\<open>V_Unparsable\<close>); a JSON object with a \<^verbatim>\<open>validation\<close> field gives the verdict and its
  reason; any other JSON object is read as an analysis.
\<close>

datatype validation_outcome =
    V_Unavailable
  | V_Unparsable
  | V_Verdict pystr pystr
  | V_Analysis reply

text \<open>The messages of the validation, named by how their text begins.\<close>

datatype vreason =
    No_Reason
  | Technical_Error
  | Model_Reason pystr
  | Validation_Notice
  | Validation_Accepted_Lower
  | Validation_Accepted
  | Validation_Failed
  | Validation_Passed_Exactly
  | Validation_Passed_Minor

record validation =
  valid :: bool
  reason :: vreason

text \<open>\<^verbatim>\<open>sentiment_categories.index(s) if s in sentiment_categories else -1\<close>.\<close>

definition sentiment_categories :: "pystr list" where
  "sentiment_categories =
     [u ''Panic'', u ''Fear/Anxiety'', u ''Disbelief'', u ''Resilience'', u ''Neutral'']"

fun index_from :: "int \<Rightarrow> pystr \<Rightarrow> pystr list \<Rightarrow> int" where
  "index_from i s [] = - 1"
| "index_from i s (c # cs) = (if s = c then i else index_from (i + 1) s cs)"

definition category_index :: "pystr \<Rightarrow> int" where
  "category_index s = index_from 0 s sentiment_categories"

text \<open>The comparison of the correction with the independent analysis.  Every branch sets
  \<^verbatim>\<open>result["valid"] = True\<close>; the last step rewrites the reason of a valid result.\<close>

definition compare_correction :: "pystr \<Rightarrow> analysis \<Rightarrow> validation" where
  "compare_correction corrected_sentiment ai_analysis =
     (let ai_sentiment = sentiment ai_analysis;
          ai_confidence = confidence ai_analysis;
          result = \<lparr>valid = True, reason = No_Reason\<rparr>;
          result1 =
            (if corrected_sentiment \<noteq> ai_sentiment
             then (let ai_index = category_index ai_sentiment;
                       corrected_index = category_index corrected_sentiment
                   in if ai_index \<noteq> - 1 \<and> corrected_index \<noteq> - 1
                         \<and> 2 < \<bar>ai_index - corrected_index\<bar>
                      then (if 0.90 < ai_confidence
                            then result\<lparr>valid := True, reason := Validation_Notice\<rparr>
                            else result\<lparr>valid := True, reason := Validation_Accepted_Lower\<rparr>)
                      else result\<lparr>valid := True, reason := Validation_Accepted\<rparr>)
             else result);
          result2 = (if \<not> valid result1 then result1\<lparr>reason := Validation_Failed\<rparr>
                     else result1)
      in if valid result2
         then (if corrected_sentiment = ai_sentiment
               then result2\<lparr>reason := Validation_Passed_Exactly\<rparr>
               else result2\<lparr>reason := Validation_Passed_Minor\<rparr>)
         else result2)"

text \<open>The analysis read from a JSON object without a verdict.\<close>

definition reply_analysis :: "reply \<Rightarrow> analysis" where
  "reply_analysis r =
     \<lparr>sentiment = with_defaults (r_sentiment r) (u ''Neutral''),
      confidence = with_defaults (r_confidence r) 0.7,
      explanation = with_defaults (r_explanation r) (u ''No explanation provided'')\<rparr>"

text \<open>\<^verbatim>\<open>_validate_sentiment_correction(text, original_sentiment, corrected_sentiment)\<close>.\<close>

definition validate_sentiment_correction ::
    "validation_outcome \<Rightarrow> pystr \<Rightarrow> pystr \<Rightarrow> pystr \<Rightarrow> pystr \<Rightarrow> validation" where
  "validate_sentiment_correction outcome lang t original_sentiment corrected_sentiment =
     (case outcome of
        V_Unparsable \<Rightarrow> \<lparr>valid = True, reason = Technical_Error\<rparr>
      | V_Verdict verdict why \<Rightarrow> \<lparr>valid = (lower verdict = u ''valid''), reason = Model_Reason why\<rparr>
      | V_Analysis r \<Rightarrow> compare_correction corrected_sentiment (reply_analysis r)
      | V_Unavailable \<Rightarrow>
          compare_correction corrected_sentiment (rule_based_sentiment_analysis t lang))"

text \<open>The response of \<^verbatim>\<open>train_on_feedback\<close>.\<close>

datatype fmessage = Message pystr | Validation_Message vreason

record feedback_response =
  status :: pystr
  message :: fmessage
  previous_accuracy :: "rat option"
  new_accuracy :: "rat option"
  improvement :: "rat option"

text \<open>
  The improvement factor of a validated sentiment correction: a draw of
  \<^verbatim>\<open>random.uniform\<close> whose bounds depend on the label, halved when the validation failed.
\<close>

definition improvement_factor :: "(rat \<Rightarrow> rat \<Rightarrow> rat) \<Rightarrow> pystr \<Rightarrow> bool \<Rightarrow> rat" where
  "improvement_factor uniform corrected_sentiment is_valid =
     (let factor =
        (if corrected_sentiment = u ''Neutral'' then uniform 0.001 0.003
         else if corrected_sentiment = u ''Panic'' then uniform 0.003 0.006
         else if corrected_sentiment = u ''Fear/Anxiety'' then uniform 0.002 0.005
         else if corrected_sentiment = u ''Resilience'' then uniform 0.002 0.004
         else if corrected_sentiment = u ''Disbelief'' then uniform 0.002 0.004
         else uniform 0.001 0.003)
      in if \<not> is_valid then factor * 0.5 else factor)"

text \<open>\<^verbatim>\<open>_update_training_data\<close>: the three caches, keyed by the lowered words joined by
  spaces.\<close>

definition update_training_data ::
    "pystr list \<Rightarrow> pystr \<Rightarrow> pystr \<Rightarrow> pystr \<Rightarrow> backend \<Rightarrow> backend" where
  "update_training_data words sent loc disaster_type st =
     (let text_key = lower (join (u '' '') words);
          st1 = st\<lparr>trained_examples := (trained_examples st)(text_key \<mapsto> sent)\<rparr>;
          st2 = (if loc \<noteq> []
                 then st1\<lparr>location_examples := (location_examples st1)(text_key \<mapsto> loc)\<rparr>
                 else st1)
      in if disaster_type \<noteq> []
         then st2\<lparr>disaster_examples := (disaster_examples st2)(text_key \<mapsto> disaster_type)\<rparr>
         else st2)"

text \<open>The parts of the success message, joined by " and ".\<close>

definition success_parts :: "bool \<Rightarrow> bool \<Rightarrow> bool \<Rightarrow> pystr \<Rightarrow> pystr \<Rightarrow> pystr \<Rightarrow> pystr list" where
  "success_parts has_sentiment has_location has_disaster sent loc disaster_type =
     (if has_sentiment then [[39] @ sent @ [39] @ u '' sentiment''] else [])
     @ (if has_location then [u ''location '' @ [39] @ loc @ [39]] else [])
     @ (if has_disaster then [u ''disaster type '' @ [39] @ disaster_type @ [39]] else [])"

text \<open>
  \<^verbatim>\<open>train_on_feedback\<close>.  An argument that is \<^verbatim>\<open>None\<close> or empty is the empty string.  The
  block that validates a sentiment correction ends with \<^verbatim>\<open>return\<close>, so the lines that
  store the correction run only when there is no sentiment correction.
\<close>

definition train_on_feedback ::
    "validation_outcome \<Rightarrow> (rat \<Rightarrow> rat \<Rightarrow> rat) \<Rightarrow> pystr \<Rightarrow> pystr \<Rightarrow> pystr \<Rightarrow> pystr \<Rightarrow> pystr
     \<Rightarrow> pystr \<Rightarrow> backend \<Rightarrow> feedback_response \<times> backend" where
  "train_on_feedback outcome uniform lang original_text original_sentiment corrected_sentiment
       corrected_location corrected_disaster_type st =
     (let has_sentiment_correction =
            (original_text \<noteq> [] \<and> original_sentiment \<noteq> [] \<and> corrected_sentiment \<noteq> []);
          has_location_correction = (original_text \<noteq> [] \<and> corrected_location \<noteq> []);
          has_disaster_correction = (original_text \<noteq> [] \<and> corrected_disaster_type \<noteq> [])
      in if \<not> (has_sentiment_correction \<or> has_location_correction \<or> has_disaster_correction)
         then (\<lparr>status = u ''error'', message = Message (u ''No valid corrections provided''),
                previous_accuracy = None, new_accuracy = None, improvement = None\<rparr>, st)
         else if has_sentiment_correction \<and> corrected_sentiment \<notin> set sentiment_labels
         then (\<lparr>status = u ''error'', message = Message (u ''Invalid sentiment label''),
                previous_accuracy = None, new_accuracy = None, improvement = None\<rparr>, st)
         else if has_sentiment_correction
         then (let validation_result =
                     validate_sentiment_correction outcome lang original_text
                       original_sentiment corrected_sentiment;
                   factor = improvement_factor uniform corrected_sentiment
                              (valid validation_result);
                   previous = 0.86;
                   new = min 0.88 (round2 (previous + factor))
               in (\<lparr>status = (if \<not> valid validation_result then u ''quiz_feedback''
                               else u ''success''),
                    message = Validation_Message (reason validation_result),
                    previous_accuracy = Some previous, new_accuracy = Some new,
                    improvement = Some (new - previous)\<rparr>, st))
         else (let words = findall word_pattern (lower original_text);
                   sentiment_to_store = (if has_sentiment_correction then corrected_sentiment
                                         else original_sentiment);
                   st' = update_training_data words sentiment_to_store corrected_location
                           corrected_disaster_type st;
                   factor = (if has_sentiment_correction
                             then (if original_sentiment = corrected_sentiment
                                   then uniform 0.003 0.006 * 0.1 else uniform 0.003 0.006)
                             else uniform 0.001 0.003);
                   old_accuracy = 0.86;
                   new = min 0.88 (round2 (old_accuracy + factor))
               in (\<lparr>status = u ''success'',
                    message = Message (u ''Model trained on feedback for ''
                      @ join (u '' and '')
                          (success_parts has_sentiment_correction has_location_correction
                             has_disaster_correction sentiment_to_store corrected_location
                             corrected_disaster_type)),
                    previous_accuracy = Some old_accuracy, new_accuracy = Some new,
                    improvement = Some (new - old_accuracy)\<rparr>, st')))"

section \<open>The classification entry point\<close>

text \<open>The answer of the model used for single texts: it has a sentiment, the other fields
  may be missing.\<close>

record rt_reply =
  rt_sentiment :: pystr
  rt_confidence :: "rat option"
  rt_explanation :: "pystr option"
  rt_disasterType :: "pystr option"
  rt_location :: "pystr option"

datatype rt_outcome = Rt_Failed | Rt_Answered rt_reply

text \<open>
  What surrounds a call: the language that \<^verbatim>\<open>detect\<close> reports for a text, the fields
  of a text that parses as a JSON object with \<^verbatim>\<open>feedback\<close> true, whether the caller is
  \<^verbatim>\<open>process_csv\<close>, the variable \<^verbatim>\<open>VALIDATION_API_KEY\<close>, and what the remote services
  and the random generator answer.
\<close>

record env =
  detect_language :: "pystr \<Rightarrow> pystr"
  parse_feedback :: "pystr \<Rightarrow> (pystr \<times> pystr \<times> pystr) option"
  from_csv :: bool
  validation_api_key :: "pystr option"
  realtime_answer :: rt_outcome
  pool_answers :: "nat \<Rightarrow> outcome"
  validation_request :: validation_outcome
  random_uniform :: "rat \<Rightarrow> rat \<Rightarrow> rat"

definition sentiment_map :: "(pystr \<times> pystr) list" where
  "sentiment_map =
     [(u ''PANIC'', u ''Panic''), (u ''FEAR'', u ''Fear/Anxiety''),
      (u ''ANXIETY'', u ''Fear/Anxiety''), (u ''FEAR/ANXIETY'', u ''Fear/Anxiety''),
      (u ''NEUTRAL'', u ''Neutral''), (u ''DISBELIEF'', u ''Disbelief''),
      (u ''RESILIENCE'', u ''Resilience''), (u ''HOPE'', u ''Resilience'')]"

text \<open>The result for a single text from the answer of the dedicated model: the label is
  mapped to one of the five, corrected, and the confidence is capped at 0.97.\<close>

definition realtime_result :: "pystr \<Rightarrow> pystr \<Rightarrow> rt_reply \<Rightarrow> classification" where
  "realtime_result t lang r =
     (let sent = (if rt_sentiment r \<notin> set sentiment_categories
                  then with_defaults (map_of sentiment_map (upper (rt_sentiment r)))
                         (u ''Neutral'')
                  else rt_sentiment r)
      in \<lparr>sentiment = post_process t sent,
          confidence = min 0.97 (with_defaults (rt_confidence r) 0.85),
          explanation = with_defaults (rt_explanation r)
                          (u ''Analysis via DeepSeek R1 Distill Llama 70B''),
          disasterType = rt_disasterType r,
          location = rt_location r,
          language = Some lang\<rparr>)"

text \<open>The result for an empty text.\<close>

definition no_text_result :: classification where
  "no_text_result =
     \<lparr>sentiment = u ''Neutral'', confidence = 0.82, explanation = u ''No text provided'',
      disasterType = Some (u ''UNKNOWN''), location = Some (u ''UNKNOWN''),
      language = Some (u ''English'')\<rparr>"

text \<open>The key of the cache of trained examples for a text.\<close>

definition joined_words :: "pystr \<Rightarrow> pystr" where
  "joined_words t = lower (join (u '' '') (findall word_pattern (lower t)))"

definition trained_explanation :: "pystr \<Rightarrow> pystr \<Rightarrow> pystr" where
  "trained_explanation lang trained_sentiment =
     (if lang \<noteq> u ''Filipino''
      then u ''Classification based on previous user feedback for this exact message: ''
           @ trained_sentiment
      else u ''Klasipikasyon batay sa kauna-unahang feedback para sa mensaheng ito: ''
           @ trained_sentiment)"

text \<open>The keys that the remote path left out are added.\<close>

definition add_metadata :: "pystr \<Rightarrow> pystr \<Rightarrow> classification \<Rightarrow> classification" where
  "add_metadata t lang r =
     r\<lparr>disasterType := Some (with_defaults (disasterType r) (extract_disaster_type t)),
       location := Some (with_defaults (location r) (extract_location t)),
       language := Some (with_defaults (language r) lang)\<rparr>"

text \<open>
  \<^verbatim>\<open>analyze_sentiment(text)\<close>.  The answer is a classification, or the response of
  \<^verbatim>\<open>train_on_feedback\<close> when the text is a feedback request.
\<close>

definition analyze_sentiment ::
    "env \<Rightarrow> pystr \<Rightarrow> backend \<Rightarrow> (feedback_response + classification) \<times> backend" where
  "analyze_sentiment e t st =
     (if is_blank t then (Inr no_text_result, st)
      else let lang = detect_language e t
           in case parse_feedback e t of
                Some (original_text, original_sentiment, corrected_sentiment) \<Rightarrow>
                  (let res = train_on_feedback (validation_request e) (random_uniform e)
                               (detect_language e original_text) original_text
                               original_sentiment corrected_sentiment [] [] st
                   in (Inl (fst res), snd res))
              | None \<Rightarrow>
                  (case trained_examples st (joined_words t) of
                     Some trained_sentiment \<Rightarrow>
                       (Inr \<lparr>sentiment = trained_sentiment, confidence = 0.88,
                             explanation = trained_explanation lang trained_sentiment,
                             disasterType = Some (extract_disaster_type t),
                             location = Some (extract_location t),
                             language = Some lang\<rparr>, st)
                   | None \<Rightarrow>
                       (case (if \<not> from_csv e \<and> validation_api_key e \<noteq> None
                              then realtime_answer e else Rt_Failed) of
                          Rt_Answered r \<Rightarrow> (Inr (realtime_result t lang r), st)
                        | Rt_Failed \<Rightarrow>
                            (let res = get_api_sentiment_analysis (pool_answers e) t lang st
                             in (Inr (add_metadata t lang (fst res)), snd res)))))"

section \<open>A row of the CSV\<close>

text \<open>
  The part of a row of \<^verbatim>\<open>process_csv\<close> that decides the sentiment and the confidence:
  the value of the source, sentiment and confidence columns (\<open>None\<close> without the column),
  and the classification of the text when the sentiment column holds no valid label.
\<close>

record csv_row =
  row_text :: pystr
  row_source :: "pystr option"
  row_sentiment :: "pystr option"
  row_confidence :: "rat option"

definition sentiment_values :: "pystr list" where
  "sentiment_values =
     [u ''Panic'', u ''Fear/Anxiety'', u ''Disbelief'', u ''Resilience'', u ''Neutral'']"

text \<open>The sentiment and confidence written for the row; \<open>analysed\<close> is what
  \<^verbatim>\<open>analyze_sentiment\<close> returned for the text.\<close>

definition csv_row_result :: "csv_row \<Rightarrow> classification \<Rightarrow> pystr \<times> rat" where
  "csv_row_result row analysed =
     (let source = with_defaults (row_source row) (u ''CSV Import'');
          csv_sentiment0 = (if source \<in> set sentiment_values then Some source else None)
      in case row_sentiment row of
           Some s \<Rightarrow>
             (if s \<in> set sentiment_values
              then (s, round2 (with_defaults (row_confidence row) 0.7))
              else (with_defaults csv_sentiment0 (sentiment analysed), confidence analysed))
         | None \<Rightarrow> (with_defaults csv_sentiment0 (sentiment analysed), confidence analysed))"

section \<open>Sample surroundings\<close>

text \<open>Surroundings in which no remote service answers and no text is a feedback request.\<close>

definition quiet_env :: env where
  "quiet_env =
     \<lparr>detect_language = (\<lambda>t. u ''English''), parse_feedback = (\<lambda>t. None), from_csv = False,
      validation_api_key = None, realtime_answer = Rt_Failed,
      pool_answers = (\<lambda>k. Rate_Limited), validation_request = V_Unavailable,
      random_uniform = (\<lambda>a b. a)\<rparr>"

text \<open>Remote answers the confidence of which is outside what the specification allows.\<close>

definition reply_with_confidence :: "rat \<Rightarrow> reply" where
  "reply_with_confidence c = empty_reply\<lparr>r_confidence := Some c\<rparr>"

definition rt_reply_with_confidence :: "rat \<Rightarrow> rt_reply" where
  "rt_reply_with_confidence c =
     \<lparr>rt_sentiment = u ''Neutral'', rt_confidence = Some c, rt_explanation = None,
      rt_disasterType = None, rt_location = None\<rparr>"

definition labelled_row :: "pystr \<Rightarrow> pystr \<Rightarrow> rat \<Rightarrow> csv_row" where
  "labelled_row t s c =
     \<lparr>row_text = t, row_source = None, row_sentiment = Some s, row_confidence = Some c\<rparr>"


text \<open>A remote answer that says Fear/Anxiety.\<close>

definition fear_reply :: reply where
  "fear_reply = empty_reply\<lparr>r_sentiment := Some (u ''Fear/Anxiety'')\<rparr>"

section \<open>Evaluation rules\<close>

text \<open>Code points of the printable ASCII characters, and the rewrite rules that run the
  string functions on literals.\<close>

lemma of_char_ascii:
  "of_char (CHR '' '') = (32::nat)"
  "of_char (CHR ''!'') = (33::nat)"
  "of_char (CHR ''#'') = (35::nat)"
  "of_char (CHR ''$'') = (36::nat)"
  "of_char (CHR ''%'') = (37::nat)"
  "of_char (CHR ''&'') = (38::nat)"
  "of_char (CHR ''('') = (40::nat)"
  "of_char (CHR '')'') = (41::nat)"
  "of_char (CHR ''*'') = (42::nat)"
  "of_char (CHR ''+'') = (43::nat)"
  "of_char (CHR '','') = (44::nat)"
  "of_char (CHR ''-'') = (45::nat)"
  "of_char (CHR ''.'') = (46::nat)"
  "of_char (CHR ''/'') = (47::nat)"
  "of_char (CHR ''0'') = (48::nat)"
  "of_char (CHR ''1'') = (49::nat)"
  "of_char (CHR ''2'') = (50::nat)"
  "of_char (CHR ''3'') = (51::nat)"
  "of_char (CHR ''4'') = (52::nat)"
  "of_char (CHR ''5'') = (53::nat)"
  "of_char (CHR ''6'') = (54::nat)"
  "of_char (CHR ''7'') = (55::nat)"
  "of_char (CHR ''8'') = (56::nat)"
  "of_char (CHR ''9'') = (57::nat)"
  "of_char (CHR '':'') = (58::nat)"
  "of_char (CHR '';'') = (59::nat)"
  "of_char (CHR ''<'') = (60::nat)"
  "of_char (CHR ''='') = (61::nat)"
  "of_char (CHR ''>'') = (62::nat)"
  "of_char (CHR ''?'') = (63::nat)"
  "of_char (CHR ''@'') = (64::nat)"
  "of_char (CHR ''A'') = (65::nat)"
  "of_char (CHR ''B'') = (66::nat)"
  "of_char (CHR ''C'') = (67::nat)"
  "of_char (CHR ''D'') = (68::nat)"
  "of_char (CHR ''E'') = (69::nat)"
  "of_char (CHR ''F'') = (70::nat)"
  "of_char (CHR ''G'') = (71::nat)"
  "of_char (CHR ''H'') = (72::nat)"
  "of_char (CHR ''I'') = (73::nat)"
  "of_char (CHR ''J'') = (74::nat)"
  "of_char (CHR ''K'') = (75::nat)"
  "of_char (CHR ''L'') = (76::nat)"
  "of_char (CHR ''M'') = (77::nat)"
  "of_char (CHR ''N'') = (78::nat)"
  "of_char (CHR ''O'') = (79::nat)"
  "of_char (CHR ''P'') = (80::nat)"
  "of_char (CHR ''Q'') = (81::nat)"
  "of_char (CHR ''R'') = (82::nat)"
  "of_char (CHR ''S'') = (83::nat)"
  "of_char (CHR ''T'') = (84::nat)"
  "of_char (CHR ''U'') = (85::nat)"
  "of_char (CHR ''V'') = (86::nat)"
  "of_char (CHR ''W'') = (87::nat)"
  "of_char (CHR ''X'') = (88::nat)"
  "of_char (CHR ''Y'') = (89::nat)"
  "of_char (CHR ''Z'') = (90::nat)"
  "of_char (CHR ''['') = (91::nat)"
  "of_char (CHR '']'') = (93::nat)"
  "of_char (CHR ''^'') = (94::nat)"
  "of_char (CHR ''_'') = (95::nat)"
  "of_char (CHR ''a'') = (97::nat)"
  "of_char (CHR ''b'') = (98::nat)"
  "of_char (CHR ''c'') = (99::nat)"
  "of_char (CHR ''d'') = (100::nat)"
  "of_char (CHR ''e'') = (101::nat)"
  "of_char (CHR ''f'') = (102::nat)"
  "of_char (CHR ''g'') = (103::nat)"
  "of_char (CHR ''h'') = (104::nat)"
  "of_char (CHR ''i'') = (105::nat)"
  "of_char (CHR ''j'') = (106::nat)"
  "of_char (CHR ''k'') = (107::nat)"
  "of_char (CHR ''l'') = (108::nat)"
  "of_char (CHR ''m'') = (109::nat)"
  "of_char (CHR ''n'') = (110::nat)"
  "of_char (CHR ''o'') = (111::nat)"
  "of_char (CHR ''p'') = (112::nat)"
  "of_char (CHR ''q'') = (113::nat)"
  "of_char (CHR ''r'') = (114::nat)"
  "of_char (CHR ''s'') = (115::nat)"
  "of_char (CHR ''t'') = (116::nat)"
  "of_char (CHR ''u'') = (117::nat)"
  "of_char (CHR ''v'') = (118::nat)"
  "of_char (CHR ''w'') = (119::nat)"
  "of_char (CHR ''x'') = (120::nat)"
  "of_char (CHR ''y'') = (121::nat)"
  "of_char (CHR ''z'') = (122::nat)"
  "of_char (CHR ''{'') = (123::nat)"
  "of_char (CHR ''|'') = (124::nat)"
  "of_char (CHR ''}'') = (125::nat)"
  "of_char (CHR ''~'') = (126::nat)"
  by simp_all

lemma list_ex_eval: "list_ex P [] = False" "list_ex P (x # xs) = (P x \<or> list_ex P xs)"
  by simp_all

lemma list_all_eval: "list_all P [] = True" "list_all P (x # xs) = (P x \<and> list_all P xs)"
  by simp_all

lemmas num_eval = numeral_eq_iff numeral_le_iff numeral_less_iff num.inject num.distinct
  le_num_simps less_num_simps numeral_plus_numeral add_num_simps

lemmas str_eval = is_in.simps Cons_prefix_Cons Nil_prefix prefix_Nil list_ex_eval list_all_eval
  list.simps simp_thms u_def list.map of_char_ascii num_eval
  any_in_def append.simps fold_simps id_apply comp_apply if_True if_False

lemmas dis_eval = keyword_pass_def context_pass_def cooccurrence_pass_def disaster_scores_def
  disaster_keys_def disaster_types.simps context_indicators.simps full_word_def
  startswith_def endswith_def suffix_to_prefix rev.simps Let_def

lemmas cp_eval = lower_def upper_def lower_cp_def upper_cp_def is_upper_cp_def is_lower_cp_def
  is_alpha_cp_def is_digit_cp_def is_word_cp_def is_space_cp_def u_def

lemmas cls_eval = is_upper_cp_def is_lower_cp_def is_alpha_cp_def is_digit_cp_def is_word_cp_def
  is_space_cp_def

lemmas split_eval = split_ws_def split_acc.simps is_space_cp_def rev.simps

lemmas re_eval = rmatch.simps rsearch.simps rep_greedy.simps rep_lazy.simps cls_ok.simps
  re_found_def star_def plus_def lazy_star_def lazy_plus_def two_or_more_def lit_def seqs.simps
  alts.simps last_cp.simps is_word_opt_def next_cp_def concat.simps case_prod_conv option.case
  list.case drop_Cons' drop_0 drop_Nil length_Cons list.size option.distinct option.inject
  prod.inject cls_eval list.set insert_iff empty_iff

section \<open>Disaster-type extractor: selection of the category\<close>

lemma disaster_keys_all: "d \<in> set disaster_keys"
  by (cases d) (simp_all add: disaster_keys_def)

lemma priority_order_all: "d \<in> set priority_order"
  by (cases d) (simp_all add: priority_order_def)

lemma max_of_ge: "x \<in> set xs \<Longrightarrow> x \<le> max_of xs dflt"
  by (induction xs dflt rule: max_of.induct) (auto simp: max_def)

lemma max_of_mem: "xs \<noteq> [] \<Longrightarrow> max_of xs dflt \<in> set xs"
  by (induction xs dflt rule: max_of.induct) (auto simp: max_def)

lemma find_split:
  "find P xs = Some x \<Longrightarrow> \<exists>ys zs. xs = ys @ x # zs \<and> P x \<and> (\<forall>y\<in>set ys. \<not> P y)"
proof (induction xs)
  case Nil
  then show ?case by simp
next
  case (Cons a xs)
  show ?case
  proof (cases "P a")
    case True
    with Cons.prems have "x = a" by simp
    with True show ?thesis by (metis append_Nil empty_iff list.set(1))
  next
    case False
    with Cons.prems have "find P xs = Some x" by simp
    from Cons.IH[OF this] obtain ys zs where "xs = ys @ x # zs" "P x" "\<forall>y\<in>set ys. \<not> P y"
      by blast
    with False have "a # xs = (a # ys) @ x # zs \<and> P x \<and> (\<forall>y\<in>set (a # ys). \<not> P y)"
      by simp
    then show ?thesis by blast
  qed
qed

text \<open>
  C7. \<^verbatim>\<open>extract_disaster_type\<close> answers "Not Specified" on an empty or whitespace-only
  text; otherwise "UNKNOWN" when every category scores below 1; otherwise the name of a
  category whose score is the maximum, and no category with the same score comes before it
  in the priority list Typhoon, Flood, Earthquake, Volcanic Eruptions, Fire, Landslide.
\<close>

theorem extract_disaster_type_selection:
  fixes t :: pystr
  defines "sc \<equiv> disaster_scores (lower t)"
  shows "(is_blank t \<longrightarrow> extract_disaster_type t = u ''Not Specified'')
       \<and> (\<not> is_blank t \<and> (\<forall>d. dscore sc d < 1) \<longrightarrow> extract_disaster_type t = u ''UNKNOWN'')
       \<and> (\<not> is_blank t \<and> (\<exists>d. 1 \<le> dscore sc d) \<longrightarrow>
            (\<exists>d. extract_disaster_type t = disaster_name d
                 \<and> (\<forall>d'. dscore sc d' \<le> dscore sc d)
                 \<and> (\<forall>d'. dscore sc d' = dscore sc d \<longrightarrow> \<not> precedes d' d)))"
proof -
  define M where "M = max_of (map (dscore sc) disaster_keys) 0"
  define top where "top = filter (\<lambda>dt. dscore sc dt = M) disaster_keys"
  have ge: "dscore sc d \<le> M" for d
    unfolding M_def by (rule max_of_ge) (simp add: disaster_keys_all)
  have "M \<in> set (map (dscore sc) disaster_keys)"
    unfolding M_def by (rule max_of_mem) (simp add: disaster_keys_def)
  then obtain dm where dm: "dscore sc dm = M" by auto
  have top_iff: "d \<in> set top \<longleftrightarrow> dscore sc d = M" for d
    by (simp add: top_def disaster_keys_all)
  have blank: "is_blank t \<Longrightarrow> extract_disaster_type t = u ''Not Specified''"
    by (simp add: extract_disaster_type_def)
  have low: "extract_disaster_type t = u ''UNKNOWN''"
    if "\<not> is_blank t" "\<forall>d. dscore sc d < 1"
  proof -
    from that(2) dm have "M < 1" by metis
    with that(1) show ?thesis
      by (simp add: extract_disaster_type_def Let_def sc_def M_def)
  qed
  have high: "\<exists>d. extract_disaster_type t = disaster_name d
                 \<and> (\<forall>d'. dscore sc d' \<le> dscore sc d)
                 \<and> (\<forall>d'. dscore sc d' = dscore sc d \<longrightarrow> \<not> precedes d' d)"
    if nb: "\<not> is_blank t" and ex: "\<exists>d. 1 \<le> dscore sc d"
  proof -
    from ex ge have M1: "\<not> M < 1" by (metis le_less_trans not_less)
    have res: "extract_disaster_type t =
        (if length top = 1 then disaster_name (hd top)
         else (case find (\<lambda>d. d \<in> set top) priority_order of
                 Some d \<Rightarrow> disaster_name d
               | None \<Rightarrow> (case top of d # _ \<Rightarrow> disaster_name d | [] \<Rightarrow> [])))"
      unfolding extract_disaster_type_def Let_def using nb M1
      by (simp only: sc_def[symmetric] M_def[symmetric] top_def[symmetric] if_False)
    show ?thesis
    proof (cases "length top = 1")
      case True
      then obtain d where t: "top = [d]" by (cases top) auto
      then have dM: "dscore sc d = M" using top_iff[of d] by simp
      have uniq: "dscore sc d' = M \<Longrightarrow> d' = d" for d'
        using top_iff[of d'] t by simp
      have "\<not> precedes d' d" if "dscore sc d' = dscore sc d" for d'
        using uniq[of d'] that dM by (auto simp: precedes_def dest: set_takeWhileD)
      with res True t dM ge show ?thesis by auto
    next
      case False
      have "find (\<lambda>d. d \<in> set top) priority_order \<noteq> None"
        using dm top_iff[of dm] priority_order_all[of dm] by (auto simp: find_None_iff)
      then obtain d where f: "find (\<lambda>d. d \<in> set top) priority_order = Some d" by auto
      from find_split[OF f] obtain ys zs where
        sp: "priority_order = ys @ d # zs" "d \<in> set top" "\<forall>y\<in>set ys. y \<notin> set top"
        by blast
      then have dM: "dscore sc d = M" using top_iff by simp
      have "d \<notin> set ys" using sp by blast
      then have "\<forall>y\<in>set ys. y \<noteq> d" by blast
      then have tw: "takeWhile (\<lambda>x. x \<noteq> d) priority_order = ys"
        unfolding sp(1) by (induction ys) auto
      have "\<not> precedes d' d" if "dscore sc d' = dscore sc d" for d'
        using that dM top_iff[of d'] sp(3) by (auto simp: precedes_def tw)
      with res False f dM ge show ?thesis by auto
    qed
  qed
  from blank low high show ?thesis by blast
qed

lemma lower_stranded: "lower (u ''stranded'') = u ''stranded''"
  by (simp add: cp_eval)

lemma scores_stranded:
  "disaster_scores (u ''stranded'') =
     \<lparr>earthquake = 0, flood = 3 / 2, typhoon = 3 / 2, fire = 0, volcanic = 0, landslide = 0\<rparr>"
  by (simp only: str_eval dis_eval) (simp add: zero_dscores_def)

lemma not_blank_stranded: "\<not> is_blank (u ''stranded'')"
  by (simp add: is_blank_def strip_def cp_eval)

lemma lower_hello: "lower (u ''hello world'') = u ''hello world''"
  by (simp add: cp_eval)

lemma scores_hello: "disaster_scores (u ''hello world'') = zero_dscores"
  by (simp only: str_eval dis_eval)

lemma not_blank_hello: "\<not> is_blank (u ''hello world'')"
  by (simp add: is_blank_def strip_def cp_eval)

theorem extract_disaster_type_selection_witness:
  "extract_disaster_type (u ''  '') = u ''Not Specified''
   \<and> extract_disaster_type (u ''hello world'') = u ''UNKNOWN''
   \<and> extract_disaster_type (u ''stranded'') = u ''Typhoon''"
proof -
  have b: "is_blank (u ''  '')"
    by (simp add: is_blank_def strip_def cp_eval)
  have 1: "extract_disaster_type (u ''  '') = u ''Not Specified''"
    using extract_disaster_type_selection[of "u ''  ''"] b by blast
  have "\<forall>d. dscore (disaster_scores (lower (u ''hello world''))) d < 1"
  proof
    fix d show "dscore (disaster_scores (lower (u ''hello world''))) d < 1"
      by (cases d) (simp_all add: lower_hello scores_hello zero_dscores_def)
  qed
  then have 2: "extract_disaster_type (u ''hello world'') = u ''UNKNOWN''"
    using extract_disaster_type_selection[of "u ''hello world''"] not_blank_hello by blast
  let ?sc = "disaster_scores (lower (u ''stranded''))"
  have "1 \<le> dscore ?sc Flood" by (simp add: lower_stranded scores_stranded)
  then have "\<exists>d. 1 \<le> dscore ?sc d" ..
  with extract_disaster_type_selection[of "u ''stranded''"] not_blank_stranded
  obtain d where d: "extract_disaster_type (u ''stranded'') = disaster_name d"
    "\<forall>d'. dscore ?sc d' \<le> dscore ?sc d"
    "\<forall>d'. dscore ?sc d' = dscore ?sc d \<longrightarrow> \<not> precedes d' d" by blast
  from d(2) have "dscore ?sc Flood \<le> dscore ?sc d" by blast
  then have fl: "d = Flood \<or> d = Typhoon"
    by (cases d) (simp_all add: lower_stranded scores_stranded)
  have "precedes Typhoon Flood" by (simp add: precedes_def priority_order_def)
  moreover have "dscore ?sc Typhoon = dscore ?sc Flood"
    by (simp add: lower_stranded scores_stranded)
  ultimately have "d \<noteq> Flood" using d(3) by auto
  with fl have "d = Typhoon" by simp
  with d(1) have 3: "extract_disaster_type (u ''stranded'') = u ''Typhoon''" by simp
  from 1 2 3 show ?thesis by simp
qed

section \<open>Rule-based classifier: evaluation on sample texts\<close>

lemmas rb_tables = descriptive_cues_def emotional_words_def emotional_markers_def emotion_words_def
  resilience_phrases_def laughter_patterns_def simple_statements_def panic_phrases_def
  sentiment_keywords.simps keyword_labels_def

lemma five_lower: "lower five_panic_phrases = five_panic_phrases"
  by (simp only: five_panic_phrases_def lower_def lower_cp_def is_upper_cp_def str_eval cong: if_weak_cong)

lemma five_upper: "upper five_panic_phrases = u ''TRAPPED STRANDED MISSING PATAY INJURED''"
  by (simp add: five_panic_phrases_def cp_eval)

lemma five_not_descriptive: "\<not> looks_descriptive five_panic_phrases"
  unfolding looks_descriptive_def five_lower
  by (simp only: five_panic_phrases_def str_eval rb_tables cong: if_weak_cong)

lemma five_tokens: "token_count five_panic_phrases = 5"
  unfolding token_count_def five_lower
  by (simp only: five_panic_phrases_def str_eval split_eval cong: if_weak_cong; simp)

lemma five_re1: "\<not> re_found profanity_then_marks five_panic_phrases"
  by (simp only: five_panic_phrases_def str_eval re_eval profanity_then_marks_def profanity_def cong: if_weak_cong)
lemma five_re2: "\<not> re_found marks_then_profanity five_panic_phrases"
  by (simp only: five_panic_phrases_def str_eval re_eval marks_then_profanity_def profanity_def cong: if_weak_cong)
lemma five_re3: "\<not> re_found caps_profanity five_panic_phrases"
  by (simp only: five_panic_phrases_def str_eval re_eval caps_profanity_def cong: if_weak_cong)
lemma five_re4: "\<not> re_found word_profanity five_panic_phrases"
  by (simp only: five_panic_phrases_def str_eval re_eval word_profanity_def cong: if_weak_cong)
lemma five_re5: "\<not> re_found caps_then_marks five_panic_phrases"
  by (simp only: five_panic_phrases_def str_eval re_eval caps_then_marks_def cong: if_weak_cong)
lemma five_re6: "\<not> re_found may_alert five_panic_phrases"
  by (simp only: five_panic_phrases_def str_eval re_eval may_alert_def cong: if_weak_cong)
lemma five_no_emoji: "emoji_count five_panic_phrases = 0"
  by (simp only: five_panic_phrases_def emoji_count_def str_eval filter.simps cong: if_weak_cong; simp)
lemma five_no_help: "\<not> help_word_upper five_panic_phrases"
  unfolding help_word_upper_def five_upper
  by (simp only: str_eval cong: if_weak_cong)
lemma five_no_laugh: "\<not> laughing_emoji five_panic_phrases"
  by (simp only: five_panic_phrases_def laughing_emoji_def str_eval cong: if_weak_cong)

lemma five_special: "special_cases five_panic_phrases = None"
  unfolding special_cases_def five_lower
  using five_not_descriptive five_tokens five_re1 five_re2 five_re3 five_re4 five_re5 five_re6 five_no_help five_no_laugh five_no_emoji
  by (simp add: many_emoji_def)

lemmas rb_eval = keyword_scoring_def laughter_count_def laughter_nudge_def resilience_nudge_def
  tulong_nudge_def simple_statement_override_def panic_phrase_pass_def Let_def

lemma five_keywords:
  "keyword_scoring five_panic_phrases sc = sbump sc Panic 1"
  by (simp only: five_panic_phrases_def str_eval rb_eval rb_tables cong: if_weak_cong)

lemma five_laughter: "laughter_count five_panic_phrases = 0"
  by (simp only: five_panic_phrases_def str_eval rb_eval rb_tables cong: if_weak_cong)

lemma five_resilience: "resilience_nudge five_panic_phrases sc = sc"
  by (simp only: five_panic_phrases_def str_eval rb_eval rb_tables cong: if_weak_cong)

lemma five_tulong: "tulong_nudge five_panic_phrases sc = sc"
  by (simp only: five_panic_phrases_def str_eval rb_eval rb_tables cong: if_weak_cong)

lemma five_simple: "simple_statement_override five_panic_phrases sc = sc"
  by (simp only: five_panic_phrases_def str_eval rb_eval rb_tables cong: if_weak_cong)

lemma five_panic:
  "panic_phrase_pass five_panic_phrases sc =
     sbump (sbump (sbump (sbump (sbump sc Panic 2) Panic 2) Panic 2) Panic 2) Panic 2"
  by (simp only: five_panic_phrases_def str_eval rb_eval rb_tables cong: if_weak_cong)

lemma five_no_bang: "\<not> is_in (u ''!'') five_panic_phrases"
  by (simp only: five_panic_phrases_def str_eval cong: if_weak_cong)

lemma five_no_question: "\<not> is_in (u ''?'') five_panic_phrases"
  by (simp only: five_panic_phrases_def str_eval cong: if_weak_cong)

lemma five_split: "split_ws five_panic_phrases =
    [u ''trapped'', u ''stranded'', u ''missing'', u ''patay'', u ''injured'']"
  by (simp only: five_panic_phrases_def str_eval split_eval cong: if_weak_cong)

lemma five_caps: "caps_pass five_panic_phrases sc = sc"
  unfolding caps_pass_def five_split
  by (simp add: isupper_def cp_eval)

lemma five_scores:
  "final_scores five_panic_phrases =
     \<lparr>panic = 11, fear_anxiety = 0, disbelief = 0, resilience = 0, neutral = 0\<rparr>"
  unfolding final_scores_def Let_def five_lower
  by (simp add: five_keywords five_laughter laughter_nudge_def five_resilience five_tulong five_simple five_panic
      exclamation_pass_def question_pass_def five_no_bang five_no_question five_caps zero_sscores_def)

lemma five_result:
  "sentiment (rule_based_sentiment_analysis five_panic_phrases lang) = u ''Panic''"
  "confidence (rule_based_sentiment_analysis five_panic_phrases lang) = 1.03"
  by (simp_all add: rule_based_sentiment_analysis_def five_special scored_analysis_def five_scores
      smax_def labels_def top_sentiments_def finish_def score_confidence_def round2_def Let_def)

lemma may_sunog_lower: "lower (u ''may sunog'') = u ''may sunog''"
  by (simp only: lower_def lower_cp_def is_upper_cp_def str_eval cong: if_weak_cong)

lemma may_sunog_upper: "upper (u ''may sunog'') = u ''MAY SUNOG''"
  by (simp add: cp_eval)

lemma may_sunog_descriptive: "looks_descriptive (u ''may sunog'')"
  unfolding looks_descriptive_def may_sunog_lower
  by (simp only: str_eval rb_tables cong: if_weak_cong)

lemma may_sunog_no_emotion: "\<not> has_emotion (u ''may sunog'')"
  unfolding has_emotion_def may_sunog_lower may_sunog_upper
  by (simp only: str_eval rb_tables cong: if_weak_cong)

lemma may_sunog_tokens: "token_count (u ''may sunog'') = 2"
  unfolding token_count_def may_sunog_lower
  by (simp only: str_eval split_eval cong: if_weak_cong; simp)

lemma may_sunog_no_emotion_word: "\<not> contains_emotion (u ''may sunog'')"
  unfolding contains_emotion_def may_sunog_lower
  by (simp only: str_eval rb_tables cong: if_weak_cong)

lemma may_sunog_result:
  "sentiment (rule_based_sentiment_analysis (u ''may sunog'') lang) = u ''Neutral''"
  "confidence (rule_based_sentiment_analysis (u ''may sunog'') lang) = 0.92"
  by (simp_all add: rule_based_sentiment_analysis_def special_cases_def
      may_sunog_descriptive may_sunog_no_emotion)

lemma hello_lower: "lower (u ''hello'') = u ''hello''"
  by (simp only: lower_def lower_cp_def is_upper_cp_def str_eval cong: if_weak_cong)

lemma hello_not_descriptive: "\<not> looks_descriptive (u ''hello'')"
  unfolding looks_descriptive_def hello_lower
  by (simp only: str_eval rb_tables cong: if_weak_cong)

lemma hello_tokens: "token_count (u ''hello'') = 1"
  unfolding token_count_def hello_lower
  by (simp only: str_eval split_eval cong: if_weak_cong; simp)

lemma hello_no_emotion_word: "\<not> contains_emotion (u ''hello'')"
  unfolding contains_emotion_def hello_lower
  by (simp only: str_eval rb_tables cong: if_weak_cong)

section \<open>Rule-based classifier: the confidence\<close>

lemma round2_hundredths: "round2 (of_int k / 100) = of_int k / 100"
  by (simp add: round2_def Let_def)

lemma score_confidence_eq:
  "m \<noteq> 0 \<Longrightarrow> score_confidence m = 0.70 + of_int m * 0.03"
proof -
  have "(0.70 :: rat) + of_int m * 0.03 = of_int (70 + 3 * m) / 100" by simp
  then show "m \<noteq> 0 \<Longrightarrow> ?thesis"
    unfolding score_confidence_def by (simp only: round2_hundredths if_False)
qed

lemma fold_neutral:
  "0 \<le> neutral s \<Longrightarrow> (\<And>x s. 0 \<le> neutral s \<Longrightarrow> 0 \<le> neutral (f x s))
   \<Longrightarrow> 0 \<le> neutral (fold f xs s)"
  by (induction xs arbitrary: s) auto

lemma neutral_sbump: "s \<noteq> Neutral \<Longrightarrow> neutral (sbump sc s x) = neutral sc"
  by (cases s) simp_all

lemma neutral_keyword_fold:
  "0 \<le> neutral sc \<Longrightarrow> s \<noteq> Neutral \<Longrightarrow>
   0 \<le> neutral (fold (\<lambda>keyword sc. if is_in keyword tlo then sbump sc s 1 else sc) ks sc)"
  by (rule fold_neutral) (simp_all add: neutral_sbump)

lemma neutral_keyword_scoring:
  "0 \<le> neutral sc \<Longrightarrow> 0 \<le> neutral (keyword_scoring tlo sc)"
  unfolding keyword_scoring_def
proof (rule fold_neutral)
  fix x :: label and s :: sscores
  assume a: "0 \<le> neutral s"
  show "0 \<le> neutral (fold (\<lambda>keyword sc. if is_in keyword tlo then sbump sc x 1 else sc)
                         (sentiment_keywords x) s)"
  proof (cases "x = Neutral")
    case True
    with a show ?thesis by simp
  next
    case False
    with a show ?thesis by (rule neutral_keyword_fold)
  qed
qed

lemma neutral_resilience_nudge:
  "0 \<le> neutral sc \<Longrightarrow> 0 \<le> neutral (resilience_nudge tlo sc)"
  unfolding resilience_nudge_def
  by (rule fold_neutral) (simp_all add: Let_def)

lemma neutral_panic_phrase_pass:
  "0 \<le> neutral sc \<Longrightarrow> 0 \<le> neutral (panic_phrase_pass tlo sc)"
  unfolding panic_phrase_pass_def
  by (rule fold_neutral) simp_all

lemma neutral_exclamation_pass:
  "0 \<le> neutral sc \<Longrightarrow> 0 \<le> neutral (exclamation_pass t sc)"
proof -
  assume a: "0 \<le> neutral sc"
  have "0 \<le> neutral (fold exclamation_step ps sc)" for ps
    using a by (rule fold_neutral) (simp add: exclamation_step_def)
  with a show ?thesis by (simp add: exclamation_pass_def)
qed

lemma neutral_question_pass:
  "0 \<le> neutral sc \<Longrightarrow> 0 \<le> neutral (question_pass t sc)"
proof -
  assume a: "0 \<le> neutral sc"
  have "0 \<le> neutral (fold question_step ps sc)" for ps
    using a by (rule fold_neutral) (simp add: question_step_def Let_def)
  with a show ?thesis by (simp add: question_pass_def)
qed

lemma neutral_laughter_nudge:
  "0 \<le> neutral sc \<Longrightarrow> 0 \<le> neutral (laughter_nudge tlo sc)"
  by (simp add: laughter_nudge_def)

lemma neutral_tulong_nudge:
  "0 \<le> neutral sc \<Longrightarrow> 0 \<le> neutral (tulong_nudge tlo sc)"
  by (simp add: tulong_nudge_def)

lemma neutral_simple_statement_override:
  "0 \<le> neutral sc \<Longrightarrow> 0 \<le> neutral (simple_statement_override tlo sc)"
  by (simp add: simple_statement_override_def)

lemma neutral_caps_pass:
  "0 \<le> neutral sc \<Longrightarrow> 0 \<le> neutral (caps_pass t sc)"
  by (simp add: caps_pass_def)

lemma neutral_final_scores: "0 \<le> neutral (final_scores t)"
  unfolding final_scores_def Let_def
  by (intro neutral_caps_pass neutral_question_pass neutral_exclamation_pass
      neutral_panic_phrase_pass neutral_simple_statement_override neutral_tulong_nudge
      neutral_resilience_nudge neutral_laughter_nudge neutral_keyword_scoring)
     (simp add: zero_sscores_def)

lemma smax_ge_neutral: "neutral sc \<le> smax sc"
  unfolding smax_def by (rule max_of_ge) (simp add: labels_def)

lemma smax_final_nonneg: "0 \<le> smax (final_scores t)"
  using neutral_final_scores[of t] smax_ge_neutral[of "final_scores t"] by linarith

lemma special_cases_confidence:
  "special_cases t = Some r \<Longrightarrow> confidence r \<in> fixed_confidences"
  by (auto simp: special_cases_def fixed_confidences_def split: if_splits)

lemma scored_analysis_confidence:
  "confidence (scored_analysis t) \<in> fixed_confidences
   \<or> (1 \<le> smax (final_scores t)
       \<and> confidence (scored_analysis t) = 0.70 + of_int (smax (final_scores t)) * 0.03)"
proof (cases "smax (final_scores t) = 0")
  case True
  then show ?thesis by (simp add: scored_analysis_def fixed_confidences_def)
next
  case False
  with smax_final_nonneg[of t] have pos: "1 \<le> smax (final_scores t)" by linarith
  have fin: "confidence (finish t (smax (final_scores t)) c)
       = 0.70 + of_int (smax (final_scores t)) * 0.03" for c
    by (simp add: finish_def Let_def score_confidence_eq[OF False])
  show ?thesis
    using False pos
    by (simp add: scored_analysis_def Let_def fin fixed_confidences_def)
qed


text \<open>
  The confidence of the rule-based classifier is a whole number of hundredths and at least
  0.73; it is one of the fixed values, or 0.70 + 0.03 * max_score with max_score at least 1,
  so it is at most 1 exactly when a fixed value is returned or max_score is at most 10.
\<close>

lemma rule_based_confidence_range:
  fixes t :: pystr and lang :: pystr
  defines "c \<equiv> confidence (rule_based_sentiment_analysis t lang)"
      and "m \<equiv> smax (final_scores t)"
  shows "(\<exists>k::int. c = of_int k / 100) \<and> 0.73 \<le> c
       \<and> (c \<in> fixed_confidences \<or> (1 \<le> m \<and> c = 0.70 + of_int m * 0.03))
       \<and> (c \<le> 1 \<longleftrightarrow> c \<in> fixed_confidences \<or> m \<le> 10)"
proof -
  have alt: "c \<in> fixed_confidences \<or> (1 \<le> m \<and> c = 0.70 + of_int m * 0.03)"
    unfolding c_def m_def rule_based_sentiment_analysis_def
    using special_cases_confidence[of t] scored_analysis_confidence[of t]
    by (auto split: option.splits)
  have fixed: "x \<in> fixed_confidences \<Longrightarrow> (\<exists>k::int. x = of_int k / 100) \<and> 0.73 \<le> x \<and> x \<le> 1" for x :: rat
  proof -
    assume "x \<in> fixed_confidences"
    then consider "x = 0.83" | "x = 0.90" | "x = 0.92" | "x = 0.94" | "x = 0.95" | "x = 0.96" | "x = 0.97"
      by (auto simp: fixed_confidences_def)
    then show ?thesis
    proof cases
      case 1 then show ?thesis by (intro conjI exI[of _ 83]) simp_all
    next
      case 2 then show ?thesis by (intro conjI exI[of _ 90]) simp_all
    next
      case 3 then show ?thesis by (intro conjI exI[of _ 92]) simp_all
    next
      case 4 then show ?thesis by (intro conjI exI[of _ 94]) simp_all
    next
      case 5 then show ?thesis by (intro conjI exI[of _ 95]) simp_all
    next
      case 6 then show ?thesis by (intro conjI exI[of _ 96]) simp_all
    next
      case 7 then show ?thesis by (intro conjI exI[of _ 97]) simp_all
    qed
  qed
  have formula: "(\<exists>k::int. x = of_int k / 100) \<and> 0.73 \<le> x \<and> (x \<le> 1 \<longleftrightarrow> m \<le> 10)"
    if "1 \<le> m" "x = 0.70 + of_int m * 0.03" for x :: rat
  proof -
    have e: "x = of_int (70 + 3 * m) / 100" using that(2) by simp
    then have ex: "\<exists>k::int. x = of_int k / 100" by blast
    have lo: "0.73 \<le> x" using that by simp
    have "x \<le> 1 \<longleftrightarrow> of_int (70 + 3 * m) \<le> (100 :: rat)"
      unfolding e by (simp add: field_simps)
    also have "\<dots> \<longleftrightarrow> 70 + 3 * m \<le> 100"
      by (metis of_int_le_iff of_int_numeral)
    also have "\<dots> \<longleftrightarrow> m \<le> 10" by linarith
    finally show ?thesis using ex lo by blast
  qed
  from alt fixed formula show ?thesis by blast
qed

section \<open>Rule-based classifier: short statements\<close>

text \<open>
  C3 (as stated).  "may sunog" has two tokens and no emotional keyword, and the classifier
  returns confidence 0.92, not 0.90: the descriptive test comes first.
\<close>

theorem short_statement_counterexample:
  "\<not> (token_count (u ''may sunog'') \<le> 3 \<and> \<not> contains_emotion (u ''may sunog'')
       \<longrightarrow> sentiment (rule_based_sentiment_analysis (u ''may sunog'') (u ''Filipino''))
             = u ''Neutral''
           \<and> confidence (rule_based_sentiment_analysis (u ''may sunog'') (u ''Filipino''))
             = 0.90)"
  by (simp add: may_sunog_tokens may_sunog_no_emotion_word may_sunog_result)

text \<open>
  C3 (amended).  For every text of at most 3 whitespace tokens with no emotional keyword
  the rule-based classifier returns Neutral; the confidence is 0.92 when the text is
  descriptive without emotion (the test made first) and 0.90 otherwise.
\<close>

theorem short_statement_neutral:
  "token_count t \<le> 3 \<Longrightarrow> \<not> contains_emotion t \<Longrightarrow>
   sentiment (rule_based_sentiment_analysis t lang) = u ''Neutral''
   \<and> confidence (rule_based_sentiment_analysis t lang)
       = (if looks_descriptive t \<and> \<not> has_emotion t then 0.92 else 0.90)"
  by (simp add: rule_based_sentiment_analysis_def special_cases_def)

theorem short_statement_neutral_witness:
  "token_count (u ''hello'') \<le> 3 \<and> \<not> contains_emotion (u ''hello'')
   \<and> sentiment (rule_based_sentiment_analysis (u ''hello'') (u ''English'')) = u ''Neutral''
   \<and> confidence (rule_based_sentiment_analysis (u ''hello'') (u ''English'')) = 0.90
   \<and> token_count (u ''may sunog'') \<le> 3 \<and> \<not> contains_emotion (u ''may sunog'')
   \<and> confidence (rule_based_sentiment_analysis (u ''may sunog'') (u ''Filipino'')) = 0.92"
proof -
  have h: "token_count (u ''hello'') \<le> 3" "\<not> contains_emotion (u ''hello'')"
    by (simp_all add: hello_tokens hello_no_emotion_word)
  have m: "token_count (u ''may sunog'') \<le> 3" "\<not> contains_emotion (u ''may sunog'')"
    by (simp_all add: may_sunog_tokens may_sunog_no_emotion_word)
  from short_statement_neutral[OF h, of "u ''English''"]
       short_statement_neutral[OF m, of "u ''Filipino''"] h m
  show ?thesis
    by (simp add: hello_not_descriptive may_sunog_descriptive may_sunog_no_emotion)
qed

section \<open>Batch pipeline: batches and cooldowns\<close>


lemma seconds_slept_append: "seconds_slept (xs @ ys) = seconds_slept xs + seconds_slept ys"
  by (induction xs rule: seconds_slept.induct) auto














section \<open>Key pool: the pointer\<close>



lemma attempts_nonempty:
  "0 < n \<Longrightarrow> [0..<min 3 n] = 0 # [1..<min 3 n]"
  by (simp add: upt_conv_Cons)








section \<open>The confidence at every stage\<close>

lemma if_two_values:
  "(if p then a else if q then b else if r then a else b) = a
     \<or> (if p then a else if q then b else if r then a else b) = b"
  by simp

lemma round2_is_hundredths: "\<exists>k::int. round2 x = of_int k / 100"
proof -
  have "round2 x = of_int \<lfloor>x * 100\<rfloor> / 100 \<or> round2 x = of_int (\<lfloor>x * 100\<rfloor> + 1) / 100"
    unfolding round2_def Let_def by (rule if_two_values)
  then show ?thesis by blast
qed

lemma round2_rule_based:
  "round2 (confidence (rule_based_sentiment_analysis t lang))
     = confidence (rule_based_sentiment_analysis t lang)"
proof -
  from rule_based_confidence_range[of t lang] obtain k :: int where
    "confidence (rule_based_sentiment_analysis t lang) = of_int k / 100" by blast
  then show ?thesis by (simp only: round2_hundredths)
qed

lemma blank_analyze: "is_blank t \<Longrightarrow> analyze_sentiment e t st = (Inr no_text_result, st)"
  by (simp add: analyze_sentiment_def)

lemma cache_hit_analyze:
  "\<not> is_blank t \<Longrightarrow> parse_feedback e t = None \<Longrightarrow>
   trained_examples st (joined_words t) = Some s \<Longrightarrow>
   \<exists>c. analyze_sentiment e t st = (Inr c, st) \<and> sentiment c = s \<and> confidence c = 0.88"
  by (simp add: analyze_sentiment_def Let_def)

lemma get_api_answered_first:
  "0 < length (api_keys st) \<Longrightarrow>
   remote (current_key_index st mod length (api_keys st)) = Answered r \<Longrightarrow>
   fst (get_api_sentiment_analysis remote t lang st) = complete_reply t lang r"
  by (simp add: get_api_sentiment_analysis_def Let_def attempts_nonempty)

lemma may_sunog_not_blank: "\<not> is_blank (u ''may sunog'')"
  by (simp add: is_blank_def strip_def u_def is_space_cp_def)

text \<open>
  C1 (as stated).  Three stages return a confidence that is not a 2-decimal value in
  [0,1].  The rule-based classifier gives "trapped stranded missing patay injured" the
  Panic score 11 and the confidence 0.70 + 0.03 * 11 = 1.03.  The remote adapter returns
  the confidence of the remote answer as it came, here 1.5, and for a single text the
  smaller of it and 0.97, here 0.125.  The CSV echo returns the confidence column of the
  row rounded to two decimals, here 5.
\<close>

theorem confidence_by_stage_counterexample:
  "\<not> confidence (rule_based_sentiment_analysis five_panic_phrases (u ''English'')) \<le> 1
   \<and> \<not> confidence (fst (get_api_sentiment_analysis
            (\<lambda>k. Answered (reply_with_confidence (3 / 2))) (u ''may sunog'') (u ''Filipino'')
            two_keys)) \<le> 1
   \<and> confidence (realtime_result (u ''may sunog'') (u ''Filipino'')
         (rt_reply_with_confidence (1 / 8))) = 1 / 8
   \<and> \<not> snd (csv_row_result (labelled_row (u ''may sunog'') (u ''Panic'') 5) no_text_result) \<le> 1"
proof -
  have a: "\<not> confidence (rule_based_sentiment_analysis five_panic_phrases (u ''English'')) \<le> 1"
    by (simp add: five_result)
  have "fst (get_api_sentiment_analysis (\<lambda>k. Answered (reply_with_confidence (3 / 2)))
          (u ''may sunog'') (u ''Filipino'') two_keys)
        = complete_reply (u ''may sunog'') (u ''Filipino'') (reply_with_confidence (3 / 2))"
    by (rule get_api_answered_first) (simp_all add: two_keys_def)
  then have b: "\<not> confidence (fst (get_api_sentiment_analysis
            (\<lambda>k. Answered (reply_with_confidence (3 / 2))) (u ''may sunog'') (u ''Filipino'')
            two_keys)) \<le> 1"
    by (simp add: complete_reply_def reply_with_confidence_def empty_reply_def
        with_defaults_def)
  have c: "confidence (realtime_result (u ''may sunog'') (u ''Filipino'')
         (rt_reply_with_confidence (1 / 8))) = 1 / 8"
    by (simp add: realtime_result_def rt_reply_with_confidence_def with_defaults_def Let_def)
  have "round2 (of_int 500 / 100) = of_int 500 / 100" by (rule round2_hundredths)
  then have r: "round2 5 = 5" by simp
  have "u ''Panic'' \<in> set sentiment_values" by (simp add: sentiment_values_def)
  then have d: "\<not> snd (csv_row_result (labelled_row (u ''may sunog'') (u ''Panic'') 5)
                 no_text_result) \<le> 1"
    by (simp add: csv_row_result_def labelled_row_def with_defaults_def Let_def r)
  from a b c d show ?thesis by (intro conjI)
qed

text \<open>
  C1 (amended).  For every text the confidence of the rule-based classifier is a whole
  number of hundredths and at least 0.73: one of the fixed values 0.83, 0.90, 0.92, 0.94,
  0.95, 0.96, 0.97, or 0.70 + 0.03 * max_score with max_score at least 1.  It is at most 1
  exactly when a fixed value is returned or max_score is at most 10, and some text gets
  more than 1.  The two fallbacks of the remote adapter return that value.  An empty text
  gets 0.82 and a cache hit 0.88.  An answer of the remote service keeps its own
  confidence (0.7 when it has none), and the answer for a single text the smaller of its
  own confidence (0.85 when it has none) and 0.97; neither is rounded or bounded below.
  The CSV echo returns the confidence column of the row (0.7 without the column) rounded to
  a whole number of hundredths, whatever its size.
\<close>

theorem confidence_by_stage:
  fixes t lang :: pystr
  defines "c \<equiv> confidence (rule_based_sentiment_analysis t lang)"
      and "m \<equiv> smax (final_scores t)"
  shows "(\<exists>k::int. c = of_int k / 100) \<and> 0.73 \<le> c
       \<and> (c \<in> fixed_confidences \<or> (1 \<le> m \<and> c = 0.70 + of_int m * 0.03))
       \<and> (c \<le> 1 \<longleftrightarrow> c \<in> fixed_confidences \<or> m \<le> 10)
       \<and> (\<exists>t'. 1 < confidence (rule_based_sentiment_analysis t' lang))
       \<and> confidence (fallback_plain t lang) = c \<and> confidence (fallback_full t lang) = c
       \<and> (is_blank t \<longrightarrow> analyze_sentiment e t st = (Inr no_text_result, st))
       \<and> confidence no_text_result = 0.82
       \<and> (\<not> is_blank t \<and> parse_feedback e t = None
            \<and> trained_examples st (joined_words t) = Some s
           \<longrightarrow> (\<exists>r. analyze_sentiment e t st = (Inr r, st) \<and> confidence r = 0.88))
       \<and> confidence (complete_reply t lang r) = with_defaults (r_confidence r) 0.7
       \<and> confidence (realtime_result t lang rr) = min 0.97 (with_defaults (rt_confidence rr) 0.85)
       \<and> (row_sentiment row = Some s' \<and> s' \<in> set sentiment_values
           \<longrightarrow> csv_row_result row a = (s', round2 (with_defaults (row_confidence row) 0.7)))
       \<and> (\<exists>k::int. round2 (with_defaults (row_confidence row) 0.7) = of_int k / 100)"
proof -
  note rb = rule_based_confidence_range[of t lang, folded c_def m_def]
  note rb1 = rb[THEN conjunct1] and rb2 = rb[THEN conjunct2, THEN conjunct1]
   and rb3 = rb[THEN conjunct2, THEN conjunct2, THEN conjunct1]
   and rb4 = rb[THEN conjunct2, THEN conjunct2, THEN conjunct2]
  have ex: "\<exists>t'. 1 < confidence (rule_based_sentiment_analysis t' lang)"
    by (rule exI[of _ five_panic_phrases]) (simp add: five_result)
  have fb: "confidence (fallback_plain t lang) = c" "confidence (fallback_full t lang) = c"
    by (simp_all add: fallback_plain_def fallback_full_def Let_def round2_rule_based c_def)
  have bl: "is_blank t \<longrightarrow> analyze_sentiment e t st = (Inr no_text_result, st)"
    using blank_analyze[of t e st] by blast
  have nt: "confidence no_text_result = 0.82" by (simp add: no_text_result_def)
  have hit: "\<not> is_blank t \<and> parse_feedback e t = None
            \<and> trained_examples st (joined_words t) = Some s
           \<longrightarrow> (\<exists>r. analyze_sentiment e t st = (Inr r, st) \<and> confidence r = 0.88)"
    using cache_hit_analyze[of t e st s] by blast
  have rem: "confidence (complete_reply t lang r) = with_defaults (r_confidence r) 0.7"
    "confidence (realtime_result t lang rr) = min 0.97 (with_defaults (rt_confidence rr) 0.85)"
    by (simp_all add: complete_reply_def realtime_result_def Let_def)
  have csv: "row_sentiment row = Some s' \<and> s' \<in> set sentiment_values
           \<longrightarrow> csv_row_result row a = (s', round2 (with_defaults (row_confidence row) 0.7))"
    by (simp add: csv_row_result_def Let_def)
  note r2 = round2_is_hundredths[of "with_defaults (row_confidence row) 0.7"]
  show ?thesis
    apply (intro conjI)
    apply (fact rb1)
    apply (fact rb2)
    apply (fact rb3)
    apply (fact rb4)
    apply (fact ex)
    apply (fact fb(1))
    apply (fact fb(2))
    apply (fact bl)
    apply (fact nt)
    apply (fact hit)
    apply (fact rem(1))
    apply (fact rem(2))
    apply (fact csv)
    apply (fact r2)
    done
qed

theorem confidence_by_stage_witness:
  "confidence (rule_based_sentiment_analysis five_panic_phrases (u ''English''))
     = 0.70 + of_int 11 * 0.03
   \<and> is_blank (u ''  '')
   \<and> analyze_sentiment quiet_env (u ''  '') two_keys = (Inr no_text_result, two_keys)
   \<and> \<not> is_blank (u ''may sunog'') \<and> parse_feedback quiet_env (u ''may sunog'') = None
   \<and> (\<exists>r. analyze_sentiment quiet_env (u ''may sunog'')
             (two_keys\<lparr>trained_examples := [joined_words (u ''may sunog'') \<mapsto> u ''Panic'']\<rparr>)
           = (Inr r, two_keys\<lparr>trained_examples :=
                                [joined_words (u ''may sunog'') \<mapsto> u ''Panic'']\<rparr>)
         \<and> confidence r = 0.88)
   \<and> row_sentiment (labelled_row (u ''may sunog'') (u ''Panic'') 5) = Some (u ''Panic'')
   \<and> u ''Panic'' \<in> set sentiment_values
   \<and> csv_row_result (labelled_row (u ''may sunog'') (u ''Panic'') 5) no_text_result
       = (u ''Panic'', round2 5)"
proof -
  let ?st = "two_keys\<lparr>trained_examples := [joined_words (u ''may sunog'') \<mapsto> u ''Panic'']\<rparr>"
  let ?row = "labelled_row (u ''may sunog'') (u ''Panic'') 5"
  have m: "smax (final_scores five_panic_phrases) = 11"
    by (simp add: five_scores smax_def labels_def)
  have nf: "confidence (rule_based_sentiment_analysis five_panic_phrases (u ''English''))
              \<notin> fixed_confidences"
    by (simp add: five_result fixed_confidences_def)
  have bl: "is_blank (u ''  '')"
    by (simp add: is_blank_def strip_def u_def is_space_cp_def)
  have pf: "parse_feedback quiet_env (u ''may sunog'') = None" by (simp add: quiet_env_def)
  have te: "trained_examples ?st (joined_words (u ''may sunog'')) = Some (u ''Panic'')"
    by simp
  have rs: "row_sentiment ?row = Some (u ''Panic'')" by (simp add: labelled_row_def)
  have rc: "with_defaults (row_confidence ?row) 0.7 = 5"
    by (simp add: labelled_row_def with_defaults_def)
  have sv: "u ''Panic'' \<in> set sentiment_values" by (simp add: sentiment_values_def)
  note five = confidence_by_stage[of five_panic_phrases "u ''English''" quiet_env two_keys
      "u ''Panic''" empty_reply "rt_reply_with_confidence (1 / 8)" ?row "u ''Panic''"
      no_text_result]
  note blank = confidence_by_stage[of "u ''  ''" "u ''English''" quiet_env two_keys
      "u ''Panic''" empty_reply "rt_reply_with_confidence (1 / 8)" ?row "u ''Panic''"
      no_text_result]
  note sunog = confidence_by_stage[of "u ''may sunog''" "u ''English''" quiet_env ?st
      "u ''Panic''" empty_reply "rt_reply_with_confidence (1 / 8)" ?row "u ''Panic''"
      no_text_result]
  from five nf m
  have w1: "confidence (rule_based_sentiment_analysis five_panic_phrases (u ''English''))
     = 0.70 + of_int 11 * 0.03" by (simp only:) blast
  from blank bl
  have w2: "analyze_sentiment quiet_env (u ''  '') two_keys = (Inr no_text_result, two_keys)"
    by blast
  from sunog may_sunog_not_blank pf te
  have w3: "\<exists>r. analyze_sentiment quiet_env (u ''may sunog'') ?st = (Inr r, ?st)
         \<and> confidence r = 0.88" by blast
  from sunog rs sv
  have "csv_row_result ?row no_text_result
          = (u ''Panic'', round2 (with_defaults (row_confidence ?row) 0.7))" by blast
  then have w4: "csv_row_result ?row no_text_result = (u ''Panic'', round2 5)"
    by (simp only: rc)
  from w1 bl w2 may_sunog_not_blank pf w3 rs sv w4 show ?thesis by (intro conjI)
qed

section \<open>Empty text\<close>

lemma blank_disaster_type: "is_blank t \<Longrightarrow> extract_disaster_type t = u ''Not Specified''"
  by (simp add: extract_disaster_type_def)

text \<open>
  C10.  For every empty or whitespace-only text \<^verbatim>\<open>analyze_sentiment\<close> returns the fixed
  result with sentiment Neutral, confidence 0.82, disasterType "UNKNOWN", location
  "UNKNOWN" and language English, whatever the surroundings, and leaves the state as it
  was.  The disasterType is "UNKNOWN" and not the "Not Specified" that
  \<^verbatim>\<open>extract_disaster_type\<close> returns for such a text: the extractors are not called.
\<close>

theorem empty_text_sentinel:
  assumes "is_blank t"
  shows "\<exists>r. analyze_sentiment e t st = (Inr r, st)
           \<and> sentiment r = u ''Neutral'' \<and> confidence r = 0.82
           \<and> disasterType r = Some (u ''UNKNOWN'') \<and> location r = Some (u ''UNKNOWN'')
           \<and> language r = Some (u ''English'')
           \<and> disasterType r \<noteq> Some (extract_disaster_type t)
           \<and> extract_disaster_type t = u ''Not Specified''"
proof -
  have ne: "u ''UNKNOWN'' \<noteq> u ''Not Specified''" by (simp add: u_def)
  from assms have a: "analyze_sentiment e t st = (Inr no_text_result, st)"
    by (rule blank_analyze)
  from assms have d: "extract_disaster_type t = u ''Not Specified''"
    by (rule blank_disaster_type)
  show ?thesis
    by (rule exI[of _ no_text_result]) (simp add: a d no_text_result_def ne)
qed

theorem empty_text_sentinel_witness:
  "is_blank (u '' '') \<and> is_blank []
   \<and> fst (analyze_sentiment quiet_env (u '' '') two_keys) = Inr no_text_result
   \<and> fst (analyze_sentiment quiet_env [] two_keys) = Inr no_text_result
   \<and> extract_disaster_type (u '' '') = u ''Not Specified''"
proof -
  have b1: "is_blank (u '' '')" by (simp add: is_blank_def strip_def u_def is_space_cp_def)
  have b2: "is_blank []" by (simp add: is_blank_def)
  from empty_text_sentinel[OF b1, of quiet_env two_keys]
  obtain r where r: "analyze_sentiment quiet_env (u '' '') two_keys = (Inr r, two_keys)"
    "sentiment r = u ''Neutral''" "extract_disaster_type (u '' '') = u ''Not Specified''"
    by blast
  have "analyze_sentiment quiet_env (u '' '') two_keys = (Inr no_text_result, two_keys)"
    using b1 by (rule blank_analyze)
  with r have w1: "fst (analyze_sentiment quiet_env (u '' '') two_keys) = Inr no_text_result"
    by simp
  have w2: "fst (analyze_sentiment quiet_env [] two_keys) = Inr no_text_result"
    using blank_analyze[OF b2, of quiet_env two_keys] by simp
  from b1 b2 w1 w2 r(3) show ?thesis by (intro conjI)
qed

section \<open>Feedback\<close>

lemma labels_not_empty: "s \<in> set sentiment_labels \<Longrightarrow> s \<noteq> []"
  by (auto simp: sentiment_labels_def labels_def u_def)

lemma sentiment_correction_response:
  assumes "original_text \<noteq> []" and "original_sentiment \<noteq> []"
      and "corrected_sentiment \<in> set sentiment_labels"
  shows "train_on_feedback outcome uniform lang original_text original_sentiment
           corrected_sentiment corrected_location corrected_disaster_type st
         = (let v = validate_sentiment_correction outcome lang original_text
                      original_sentiment corrected_sentiment;
                new = min 0.88 (round2 (0.86 + improvement_factor uniform corrected_sentiment
                                                 (valid v)))
            in (\<lparr>status = (if \<not> valid v then u ''quiz_feedback'' else u ''success''),
                 message = Validation_Message (reason v),
                 previous_accuracy = Some 0.86, new_accuracy = Some new,
                 improvement = Some (new - 0.86)\<rparr>, st))"
  using assms labels_not_empty[of corrected_sentiment]
  by (simp add: train_on_feedback_def Let_def)

lemma compare_correction_valid: "valid (compare_correction s a)"
  by (simp add: compare_correction_def Let_def)


lemma quiet_analyze_may_sunog:
  "fst (analyze_sentiment quiet_env (u ''may sunog'') two_keys)
     = Inr (add_metadata (u ''may sunog'') (u ''English'')
              (fallback_full (u ''may sunog'') (u ''English'')))"
proof -
  have n: "answers_none (\<lambda>k. Rate_Limited)" by (simp add: answers_none_def)
  have "try_keys (\<lambda>k. Rate_Limited) t lang st attempts = (fallback_full t lang, st)"
    for t lang st attempts
    by (induction attempts) (simp_all add: Let_def)
  then have g: "get_api_sentiment_analysis (\<lambda>k. Rate_Limited) t lang two_keys
                  = (fallback_full t lang, two_keys)" for t lang
    by (simp add: get_api_sentiment_analysis_def Let_def two_keys_def)
  have te: "trained_examples two_keys k = None" for k by (simp add: two_keys_def)
  show ?thesis
    by (simp add: analyze_sentiment_def may_sunog_not_blank quiet_env_def Let_def te g)
qed

text \<open>
  C2.  The claim does not hold of the code.  Whenever a call of \<^verbatim>\<open>train_on_feedback\<close>
  carries a sentiment correction with a valid label, the function returns from the block
  that validates the correction and the lines that store it are not reached: the three
  caches are the same after the call as before, whatever the validation says, and the
  response is "success" or "quiz_feedback".  So a later \<^verbatim>\<open>analyze_sentiment\<close> of the same
  text meets the cache as it was.
\<close>

theorem sentiment_correction_not_stored:
  assumes "original_text \<noteq> []" and "original_sentiment \<noteq> []"
      and "corrected_sentiment \<in> set sentiment_labels"
  shows "snd (train_on_feedback outcome uniform lang original_text original_sentiment
                corrected_sentiment corrected_location corrected_disaster_type st) = st
       \<and> status (fst (train_on_feedback outcome uniform lang original_text original_sentiment
                corrected_sentiment corrected_location corrected_disaster_type st))
           \<in> {u ''success'', u ''quiz_feedback''}
       \<and> analyze_sentiment e original_text
            (snd (train_on_feedback outcome uniform lang original_text original_sentiment
                corrected_sentiment corrected_location corrected_disaster_type st))
           = analyze_sentiment e original_text st"
  by (simp add: sentiment_correction_response[OF assms] Let_def)

text \<open>
  The correction of "may sunog" from Neutral to Panic is answered with "success", the cache
  stays empty, and the next classification of "may sunog", with no remote service
  answering, is the rule-based Neutral and not Panic.
\<close>

theorem sentiment_correction_not_stored_witness:
  "u ''may sunog'' \<noteq> [] \<and> u ''Neutral'' \<noteq> [] \<and> u ''Panic'' \<in> set sentiment_labels
   \<and> status (fst (train_on_feedback V_Unavailable (\<lambda>a b. a) (u ''Filipino'') (u ''may sunog'')
                (u ''Neutral'') (u ''Panic'') [] [] two_keys)) = u ''success''
   \<and> trained_examples (snd (train_on_feedback V_Unavailable (\<lambda>a b. a) (u ''Filipino'')
                (u ''may sunog'') (u ''Neutral'') (u ''Panic'') [] [] two_keys)) = Map.empty
   \<and> (\<exists>r. fst (analyze_sentiment quiet_env (u ''may sunog'')
               (snd (train_on_feedback V_Unavailable (\<lambda>a b. a) (u ''Filipino'')
                  (u ''may sunog'') (u ''Neutral'') (u ''Panic'') [] [] two_keys))) = Inr r
          \<and> sentiment r = u ''Neutral'' \<and> sentiment r \<noteq> u ''Panic'')"
proof -
  let ?res = "train_on_feedback V_Unavailable (\<lambda>a b. a) (u ''Filipino'') (u ''may sunog'')
                (u ''Neutral'') (u ''Panic'') [] [] two_keys"
  have h: "u ''may sunog'' \<noteq> []" "u ''Neutral'' \<noteq> []"
    "u ''Panic'' \<in> set sentiment_labels"
    by (simp_all add: u_def sentiment_labels_def labels_def)
  note nst = sentiment_correction_not_stored[OF h, of V_Unavailable "\<lambda>a b. a" "u ''Filipino''"
      "[]" "[]" two_keys quiet_env]
  from nst have s: "snd ?res = two_keys" by blast
  have v: "valid (validate_sentiment_correction V_Unavailable (u ''Filipino'') (u ''may sunog'')
             (u ''Neutral'') (u ''Panic''))"
    by (simp add: validate_sentiment_correction_def compare_correction_valid)
  have w1: "status (fst ?res) = u ''success''"
    by (simp add: sentiment_correction_response[OF h] Let_def v)
  have w2: "trained_examples (snd ?res) = Map.empty"
    by (simp only: s) (simp add: two_keys_def)
  have ne: "u ''Neutral'' \<noteq> u ''Panic''" by (simp add: u_def)
  have w3: "\<exists>r. fst (analyze_sentiment quiet_env (u ''may sunog'') (snd ?res)) = Inr r
          \<and> sentiment r = u ''Neutral'' \<and> sentiment r \<noteq> u ''Panic''"
    by (simp only: s quiet_analyze_may_sunog)
       (simp add: add_metadata_def fallback_full_def Let_def may_sunog_result ne)
  from h w1 w2 w3 show ?thesis by (intro conjI)
qed

section \<open>Validation of a sentiment correction\<close>





section \<open>Descriptive text without emotion\<close>

lemma neutral_not_fear: "u ''Neutral'' \<noteq> u ''Fear/Anxiety''"
  by (simp add: u_def)

lemma post_process_not_fear:
  "looks_descriptive t \<Longrightarrow> \<not> has_emotion t \<Longrightarrow> post_process t s \<noteq> u ''Fear/Anxiety''"
  using neutral_not_fear by (simp add: post_process_def)

lemma rule_based_descriptive:
  "looks_descriptive t \<Longrightarrow> \<not> has_emotion t \<Longrightarrow>
   sentiment (rule_based_sentiment_analysis t lang) = u ''Neutral''"
  by (simp add: rule_based_sentiment_analysis_def special_cases_def)

lemma try_keys_sentiment:
  "sentiment (fst (try_keys remote t lang st attempts))
     = sentiment (rule_based_sentiment_analysis t lang)
   \<or> (\<exists>s. sentiment (fst (try_keys remote t lang st attempts)) = post_process t s)"
proof (induction attempts)
  case Nil
  then show ?case by (simp add: fallback_full_def Let_def)
next
  case (Cons a attempts)
  show ?case
  proof (cases "remote ((current_key_index st + a) mod length (api_keys st))")
    case Rate_Limited
    with Cons show ?thesis by (simp add: Let_def)
  next
    case Request_Failed
    with Cons show ?thesis by (simp add: Let_def)
  next
    case (Answered r)
    then have "sentiment (fst (try_keys remote t lang st (a # attempts)))
                 = post_process t (with_defaults (r_sentiment r) (u ''Neutral''))"
      by (simp add: Let_def complete_reply_def)
    then show ?thesis by blast
  qed
qed

lemma get_api_sentiment:
  "sentiment (fst (get_api_sentiment_analysis remote t lang st))
     = sentiment (rule_based_sentiment_analysis t lang)
   \<or> (\<exists>s. sentiment (fst (get_api_sentiment_analysis remote t lang st)) = post_process t s)"
proof (cases "length (api_keys st) = 0")
  case True
  then show ?thesis
    by (simp add: get_api_sentiment_analysis_def fallback_plain_def Let_def)
next
  case False
  then have "get_api_sentiment_analysis remote t lang st
               = try_keys remote t lang st [0..<min 3 (length (api_keys st))]"
    by (simp add: get_api_sentiment_analysis_def Let_def)
  then show ?thesis using try_keys_sentiment[of remote t lang st] by simp
qed

lemma get_api_not_fear:
  assumes "looks_descriptive t" and "\<not> has_emotion t"
  shows "sentiment (fst (get_api_sentiment_analysis remote t lang st)) \<noteq> u ''Fear/Anxiety''"
  using get_api_sentiment[of remote t lang st] rule_based_descriptive[OF assms, of lang]
    post_process_not_fear[OF assms] neutral_not_fear
  by auto

lemma realtime_not_fear:
  "looks_descriptive t \<Longrightarrow> \<not> has_emotion t \<Longrightarrow>
   sentiment (realtime_result t lang rr) \<noteq> u ''Fear/Anxiety''"
  by (simp add: realtime_result_def Let_def post_process_not_fear)

lemma analyze_classified_not_fear:
  assumes "looks_descriptive t" and "\<not> has_emotion t"
      and "parse_feedback e t = None" and "trained_examples st (joined_words t) = None"
  shows "\<exists>r. fst (analyze_sentiment e t st) = Inr r \<and> sentiment r \<noteq> u ''Fear/Anxiety''"
proof (cases "is_blank t")
  case True
  then show ?thesis
    using neutral_not_fear by (simp add: analyze_sentiment_def no_text_result_def)
next
  case False
  show ?thesis
  proof (cases "if \<not> from_csv e \<and> validation_api_key e \<noteq> None
                then realtime_answer e else Rt_Failed")
    case Rt_Failed
    then have "fst (analyze_sentiment e t st)
                 = Inr (add_metadata t (detect_language e t)
                     (fst (get_api_sentiment_analysis (pool_answers e) t
                        (detect_language e t) st)))"
      using False assms(3,4) by (simp add: analyze_sentiment_def Let_def)
    then show ?thesis
      using get_api_not_fear[OF assms(1,2), of "pool_answers e" "detect_language e t" st]
      by (simp add: add_metadata_def)
  next
    case (Rt_Answered rr)
    then have "fst (analyze_sentiment e t st) = Inr (realtime_result t (detect_language e t) rr)"
      using False assms(3,4) by (simp add: analyze_sentiment_def Let_def)
    then show ?thesis
      using realtime_not_fear[OF assms(1,2), of "detect_language e t" rr] by simp
  qed
qed

lemma analyze_cache_hit:
  assumes "\<not> is_blank t" and "parse_feedback e t = None"
      and "trained_examples st (joined_words t) = Some s"
  shows "\<exists>r. fst (analyze_sentiment e t st) = Inr r \<and> sentiment r = s"
  using assms by (simp add: analyze_sentiment_def Let_def)

lemma location_feedback_stores:
  "t \<noteq> [] \<Longrightarrow> loc \<noteq> [] \<Longrightarrow>
   trained_examples (snd (train_on_feedback outcome uniform lang t original [] loc [] st))
     (joined_words t) = Some original"
  by (simp add: train_on_feedback_def update_training_data_def joined_words_def Let_def)

text \<open>
  C6 (as stated).  "may sunog" is descriptive without emotion, and two outputs for it are
  Fear/Anxiety.  A CSV row with that text and "Fear/Anxiety" in the sentiment column gets
  the label of the column.  After a feedback call that corrects only the location, with
  the original sentiment Fear/Anxiety, the cache holds Fear/Anxiety for the text and
  \<^verbatim>\<open>analyze_sentiment\<close> returns it.
\<close>

theorem descriptive_never_fear_counterexample:
  "looks_descriptive (u ''may sunog'') \<and> \<not> has_emotion (u ''may sunog'')
   \<and> fst (csv_row_result (labelled_row (u ''may sunog'') (u ''Fear/Anxiety'') 0.8)
           (fallback_full (u ''may sunog'') (u ''Filipino''))) = u ''Fear/Anxiety''
   \<and> (\<exists>r. fst (analyze_sentiment quiet_env (u ''may sunog'')
               (snd (train_on_feedback V_Unavailable (\<lambda>a b. a) (u ''Filipino'')
                  (u ''may sunog'') (u ''Fear/Anxiety'') [] (u ''Manila'') [] two_keys)))
             = Inr r
          \<and> sentiment r = u ''Fear/Anxiety'')"
proof -
  have sv: "u ''Fear/Anxiety'' \<in> set sentiment_values" by (simp add: sentiment_values_def)
  then have a: "fst (csv_row_result (labelled_row (u ''may sunog'') (u ''Fear/Anxiety'') 0.8)
           (fallback_full (u ''may sunog'') (u ''Filipino''))) = u ''Fear/Anxiety''"
    by (simp add: csv_row_result_def labelled_row_def Let_def)
  have ne: "u ''may sunog'' \<noteq> []" "u ''Manila'' \<noteq> []" by (simp_all add: u_def)
  have pf: "parse_feedback quiet_env (u ''may sunog'') = None" by (simp add: quiet_env_def)
  from analyze_cache_hit[OF may_sunog_not_blank pf location_feedback_stores[OF ne]]
  have b: "\<exists>r. fst (analyze_sentiment quiet_env (u ''may sunog'')
               (snd (train_on_feedback V_Unavailable (\<lambda>a b. a) (u ''Filipino'')
                  (u ''may sunog'') (u ''Fear/Anxiety'') [] (u ''Manila'') [] two_keys)))
             = Inr r
          \<and> sentiment r = u ''Fear/Anxiety''" .
  from may_sunog_descriptive may_sunog_no_emotion a b show ?thesis by (intro conjI)
qed

text \<open>
  C6 (amended).  For every text that is descriptive without emotion, no classifier outputs
  Fear/Anxiety: the rule-based classifier returns Neutral, the post-processing of a remote
  answer turns Fear/Anxiety into Neutral and outputs no Fear/Anxiety, on the pooled path
  and on the single-text path; so \<^verbatim>\<open>analyze_sentiment\<close> does not return Fear/Anxiety when
  the text is not in the cache of trained examples.  A label that was supplied is passed on
  unchanged, Fear/Anxiety included: a cache hit returns the stored label and the CSV echo
  returns the label of the sentiment column.
\<close>

theorem descriptive_never_fear:
  assumes "looks_descriptive t" and "\<not> has_emotion t"
  shows "sentiment (rule_based_sentiment_analysis t lang) = u ''Neutral''
       \<and> post_process t (u ''Fear/Anxiety'') = u ''Neutral''
       \<and> post_process t s \<noteq> u ''Fear/Anxiety''
       \<and> sentiment (fst (get_api_sentiment_analysis remote t lang st)) \<noteq> u ''Fear/Anxiety''
       \<and> sentiment (realtime_result t lang rr) \<noteq> u ''Fear/Anxiety''
       \<and> (parse_feedback e t = None \<and> trained_examples st (joined_words t) = None
           \<longrightarrow> (\<exists>r. fst (analyze_sentiment e t st) = Inr r
                    \<and> sentiment r \<noteq> u ''Fear/Anxiety''))
       \<and> (\<not> is_blank t \<and> parse_feedback e t = None
            \<and> trained_examples st (joined_words t) = Some stored
           \<longrightarrow> (\<exists>r. fst (analyze_sentiment e t st) = Inr r \<and> sentiment r = stored))
       \<and> (row_sentiment row = Some given \<and> given \<in> set sentiment_values
           \<longrightarrow> fst (csv_row_result row a) = given)"
proof -
  have p: "post_process t (u ''Fear/Anxiety'') = u ''Neutral''"
    using assms by (simp add: post_process_def)
  have c: "parse_feedback e t = None \<and> trained_examples st (joined_words t) = None
           \<longrightarrow> (\<exists>r. fst (analyze_sentiment e t st) = Inr r
                    \<and> sentiment r \<noteq> u ''Fear/Anxiety'')"
    using analyze_classified_not_fear[OF assms, of e st] by blast
  have h: "\<not> is_blank t \<and> parse_feedback e t = None
            \<and> trained_examples st (joined_words t) = Some stored
           \<longrightarrow> (\<exists>r. fst (analyze_sentiment e t st) = Inr r \<and> sentiment r = stored)"
    using analyze_cache_hit[of t e st stored] by blast
  have v: "row_sentiment row = Some given \<and> given \<in> set sentiment_values
           \<longrightarrow> fst (csv_row_result row a) = given"
    by (simp add: csv_row_result_def Let_def)
  show ?thesis
    apply (intro conjI)
    apply (rule rule_based_descriptive[OF assms])
    apply (fact p)
    apply (rule post_process_not_fear[OF assms])
    apply (rule get_api_not_fear[OF assms])
    apply (rule realtime_not_fear[OF assms])
    apply (fact c)
    apply (fact h)
    apply (fact v)
    done
qed

theorem descriptive_never_fear_witness:
  "looks_descriptive (u ''may sunog'') \<and> \<not> has_emotion (u ''may sunog'')
   \<and> sentiment (rule_based_sentiment_analysis (u ''may sunog'') (u ''Filipino'')) = u ''Neutral''
   \<and> sentiment (fst (get_api_sentiment_analysis (\<lambda>k. Answered fear_reply) (u ''may sunog'')
        (u ''Filipino'') two_keys)) \<noteq> u ''Fear/Anxiety''
   \<and> parse_feedback quiet_env (u ''may sunog'') = None
   \<and> trained_examples two_keys (joined_words (u ''may sunog'')) = None
   \<and> (\<exists>r. fst (analyze_sentiment quiet_env (u ''may sunog'') two_keys) = Inr r
          \<and> sentiment r \<noteq> u ''Fear/Anxiety'')
   \<and> \<not> is_blank (u ''may sunog'')
   \<and> (\<exists>r. fst (analyze_sentiment quiet_env (u ''may sunog'')
               (two_keys\<lparr>trained_examples :=
                  [joined_words (u ''may sunog'') \<mapsto> u ''Panic'']\<rparr>)) = Inr r
          \<and> sentiment r = u ''Panic'')
   \<and> row_sentiment (labelled_row (u ''may sunog'') (u ''Panic'') 0.8) = Some (u ''Panic'')
   \<and> u ''Panic'' \<in> set sentiment_values
   \<and> fst (csv_row_result (labelled_row (u ''may sunog'') (u ''Panic'') 0.8)
           (fallback_full (u ''may sunog'') (u ''Filipino''))) = u ''Panic''"
proof -
  let ?st = "two_keys\<lparr>trained_examples := [joined_words (u ''may sunog'') \<mapsto> u ''Panic'']\<rparr>"
  let ?row = "labelled_row (u ''may sunog'') (u ''Panic'') 0.8"
  note d = may_sunog_descriptive may_sunog_no_emotion
  have pf: "parse_feedback quiet_env (u ''may sunog'') = None" by (simp add: quiet_env_def)
  have t0: "trained_examples two_keys (joined_words (u ''may sunog'')) = None"
    by (simp add: two_keys_def)
  have t1: "trained_examples ?st (joined_words (u ''may sunog'')) = Some (u ''Panic'')"
    by simp
  have rs: "row_sentiment ?row = Some (u ''Panic'')" by (simp add: labelled_row_def)
  have sv: "u ''Panic'' \<in> set sentiment_values" by (simp add: sentiment_values_def)
  note fresh = descriptive_never_fear[OF d, of "u ''Filipino''" "u ''Fear/Anxiety''"
      "\<lambda>k. Answered fear_reply" two_keys "rt_reply_with_confidence (1 / 8)" quiet_env
      "u ''Panic''" ?row "u ''Panic''" "fallback_full (u ''may sunog'') (u ''Filipino'')"]
  note cached = descriptive_never_fear[OF d, of "u ''Filipino''" "u ''Fear/Anxiety''"
      "\<lambda>k. Answered fear_reply" ?st "rt_reply_with_confidence (1 / 8)" quiet_env
      "u ''Panic''" ?row "u ''Panic''" "fallback_full (u ''may sunog'') (u ''Filipino'')"]
  from fresh
  have w1: "sentiment (rule_based_sentiment_analysis (u ''may sunog'') (u ''Filipino''))
              = u ''Neutral''"
    and w2: "sentiment (fst (get_api_sentiment_analysis (\<lambda>k. Answered fear_reply)
               (u ''may sunog'') (u ''Filipino'') two_keys)) \<noteq> u ''Fear/Anxiety''"
    by blast+
  from fresh pf t0
  have w3: "\<exists>r. fst (analyze_sentiment quiet_env (u ''may sunog'') two_keys) = Inr r
          \<and> sentiment r \<noteq> u ''Fear/Anxiety''" by blast
  from cached may_sunog_not_blank pf t1
  have w4: "\<exists>r. fst (analyze_sentiment quiet_env (u ''may sunog'') ?st) = Inr r
          \<and> sentiment r = u ''Panic''" by blast
  from fresh rs sv
  have w5: "fst (csv_row_result ?row (fallback_full (u ''may sunog'') (u ''Filipino'')))
              = u ''Panic''" by blast
  from d w1 w2 pf t0 w3 may_sunog_not_blank w4 rs sv w5 show ?thesis by (intro conjI)
qed

end
